theory Spec2Isabelle
  imports Complex_Main
begin

section \<open>Student face attendance system (app.py)\<close>

text \<open>
  The program is one script that the UI framework runs from top to bottom at every user
  interaction. The model follows the script block by block: each block is a function
  from the state to an outcome and the state after it. The external collaborators
  (face-embedding library, Drive service, spreadsheet service, the clock) are not code of
  the script: what they return is a parameter, what they store is a component of the
  state, and every request sent to them is recorded in the call log \<open>calls\<close>.
  Network failures of the services are not modelled.
\<close>

subsection \<open>Python values\<close>

text \<open>
  Strings are lists of 8-bit characters read as code points 0 to 255; \<open>str.isspace\<close>
  and \<open>str.isdigit\<close> are the Unicode predicates restricted to that range.
\<close>

datatype py_error = IndexError | KeyError | AttributeError | ValueError

definition isspace :: "char \<Rightarrow> bool" where
  "isspace c =
     (let n = (of_char c :: nat)
      in (9 \<le> n \<and> n \<le> 13) \<or> (28 \<le> n \<and> n \<le> 32) \<or> n = 133 \<or> n = 160)"

definition strip :: "string \<Rightarrow> string" where
  "strip s = rev (dropWhile isspace (rev (dropWhile isspace s)))"

definition isdigit_char :: "char \<Rightarrow> bool" where
  "isdigit_char c =
     (let n = (of_char c :: nat)
      in (48 \<le> n \<and> n \<le> 57) \<or> n = 178 \<or> n = 179 \<or> n = 185)"

definition isdigit :: "string \<Rightarrow> bool" where
  "isdigit s = (s \<noteq> [] \<and> list_all isdigit_char s)"

definition startswith :: "string \<Rightarrow> string \<Rightarrow> bool" where
  "startswith s p = (take (length p) s = p)"

definition replace_char :: "char \<Rightarrow> char \<Rightarrow> string \<Rightarrow> string" where
  "replace_char a b s = map (\<lambda>c. if c = a then b else c) s"

text \<open>\<open>str(x)\<close> inside an f-string, for a value that is a string or \<open>None\<close>.\<close>

definition py_str :: "string option \<Rightarrow> string" where
  "py_str x = (case x of None \<Rightarrow> ''None'' | Some s \<Rightarrow> s)"

text \<open>
  A dict with string keys is an association list in insertion order. Assigning to a
  present key keeps its position, assigning to a new key appends it.
\<close>

type_synonym 'v dict = "(string \<times> 'v) list"

definition keys :: "'v dict \<Rightarrow> string list" where
  "keys d = map fst d"

definition dict_in :: "string \<Rightarrow> 'v dict \<Rightarrow> bool" where
  "dict_in k d = (map_of d k \<noteq> None)"

fun dict_set :: "'v dict \<Rightarrow> string \<Rightarrow> 'v \<Rightarrow> 'v dict" where
  "dict_set [] k v = [(k, v)]"
| "dict_set ((k', v') # d) k v =
     (if k' = k then (k', v) # d else (k', v') # dict_set d k v)"

definition dict_del :: "'v dict \<Rightarrow> string \<Rightarrow> 'v dict" where
  "dict_del d k = filter (\<lambda>kv. fst kv \<noteq> k) d"

text \<open>The built-in \<open>min\<close> of a sequence and \<open>list.index\<close>.\<close>

fun min_from :: "real \<Rightarrow> real list \<Rightarrow> real" where
  "min_from m [] = m"
| "min_from m (x # xs) = min_from (if x < m then x else m) xs"

definition py_min :: "real list \<Rightarrow> py_error + real" where
  "py_min xs = (case xs of [] \<Rightarrow> Inl ValueError | x # rest \<Rightarrow> Inr (min_from x rest))"

fun py_index :: "'a list \<Rightarrow> 'a \<Rightarrow> py_error + nat" where
  "py_index [] v = Inl ValueError"
| "py_index (x # xs) v =
     (if x = v then Inr 0
      else (case py_index xs v of Inl e \<Rightarrow> Inl e | Inr i \<Rightarrow> Inr (Suc i)))"

subsection \<open>State\<close>

type_synonym metadata = "string dict"
type_synonym row = "string list"
type_synonym dataframe = "string dict list"

text \<open>Requests sent to the external services and files written, in the order they happen.\<close>

datatype call =
    FaceDistanceCall
  | DriveCreateFolder string
  | DriveUpload string string
  | PickleDump string
  | AddWorksheet string
  | AppendRow string row

record 'e state =
  known_faces :: "'e list"
  known_metadata :: "metadata list"
  known_faces_pkl :: "('e list \<times> metadata list) option"
  class_folders :: "string dict option"
  class_folders_pkl :: "string dict option"
  worksheets :: "string \<rightharpoonup> row list"
  cache :: "string option \<rightharpoonup> dataframe"
  calls :: "call list"

text \<open>
  \<open>known_faces\<close>, \<open>known_metadata\<close>: the two module-level lists.
  \<open>known_faces_pkl\<close>, \<open>class_folders_pkl\<close>: the contents of the two pickle files,
  \<open>None\<close> when the file does not exist.
  \<open>class_folders\<close>: \<open>st.session_state.class_folders\<close>, \<open>None\<close> when the session has
  no such key.
  \<open>worksheets\<close>: the worksheets of the spreadsheet by title, each a list of rows.
  \<open>cache\<close>: the unexpired entries of the cache in front of \<open>get_class_data\<close>; expiry
  after 30 seconds happens outside the script.
\<close>

definition CLASS_FOLDERS_FILE :: string where
  "CLASS_FOLDERS_FILE = ''class_folders.pkl''"

definition DEFAULT_CLASS_LIST :: "string list" where
  "DEFAULT_CLASS_LIST =
     [''BVI3114 TECHNOLOGY SYSTEM OPTIMIZATION II'',
      ''BVI3124 APPLICATION SYSTEM DEVELOPMENT II'',
      ''UHF1111 MANDARIN FOR BEGINNERS'',
      ''BVI2254 CAPSTONE TECHNOPRENEUR I'',
      ''BVI3215 SYSTEM INTEGRATION DESIGNING'',
      ''ULE1362 ENGLISH FOR VOCATIONAL PURPOSES'']"

datatype message =
    FillAllFields
  | CaptureFaceImage
  | InvalidEmail
  | InvalidPhone
  | NoFaceDetected
  | Registered string
  | NoRegisteredFaces
  | FaceNotRecognized
  | AttendanceSubmitted string string
  | ClassNameEmpty
  | ClassAlreadyExists
  | ClassAdded string
  | ClassRemoved string
  | EnterValidAdminCode
  | NoAttendanceDataForClass
  | NoDataForDate
  | DownloadCsv dataframe
  | NoDataYet
  | AttendanceCharts dataframe

datatype outcome = Shown message | Raised py_error | Nothing

datatype match_result =
    NoMatchEmptyGallery
  | NoMatchBelowThreshold
  | Match metadata real
  | MatchError py_error

subsection \<open>Drive service\<close>

text \<open>
  \<open>drive_service.files().create(...).execute()["id"]\<close>: the service chooses the id.
  \<open>ids n\<close> is the id it returns for its \<open>n\<close>-th create request (folders and files).
\<close>

fun is_drive_create :: "call \<Rightarrow> bool" where
  "is_drive_create (DriveCreateFolder _) = True"
| "is_drive_create (DriveUpload _ _) = True"
| "is_drive_create _ = False"

definition drive_create :: "(nat \<Rightarrow> string) \<Rightarrow> call \<Rightarrow> call list \<Rightarrow> string \<times> call list" where
  "drive_create ids c cs = (ids (length (filter is_drive_create cs)), cs @ [c])"

subsection \<open>Lines 37 to 44: loading the known faces\<close>

definition load_known_faces :: "'e state \<Rightarrow> 'e state" where
  "load_known_faces s =
     (case known_faces_pkl s of
        Some (encodings, metadata) \<Rightarrow> s\<lparr>known_faces := encodings, known_metadata := metadata\<rparr>
      | None \<Rightarrow> s\<lparr>known_faces := [], known_metadata := []\<rparr>)"

subsection \<open>Lines 47 to 67: loading the class folders\<close>

fun create_default_folders ::
  "(nat \<Rightarrow> string) \<Rightarrow> string list \<Rightarrow> string dict \<Rightarrow> call list \<Rightarrow> string dict \<times> call list" where
  "create_default_folders ids [] d cs = (d, cs)"
| "create_default_folders ids (cls # rest) d cs =
     (if \<not> dict_in cls d then
        (case drive_create ids (DriveCreateFolder cls) cs of
           (folder_id, cs') \<Rightarrow> create_default_folders ids rest (dict_set d cls folder_id) cs')
      else create_default_folders ids rest d cs)"

definition bootstrap_with :: "string list \<Rightarrow> (nat \<Rightarrow> string) \<Rightarrow> 'e state \<Rightarrow> 'e state" where
  "bootstrap_with defaults ids s =
     (case class_folders s of
        Some _ \<Rightarrow> s
      | None \<Rightarrow>
          (let d0 = (case class_folders_pkl s of Some d \<Rightarrow> d | None \<Rightarrow> [])
           in case create_default_folders ids defaults d0 (calls s) of
                (d, cs) \<Rightarrow>
                  s\<lparr>class_folders := Some d, class_folders_pkl := Some d,
                    calls := cs @ [PickleDump CLASS_FOLDERS_FILE]\<rparr>))"

definition bootstrap :: "(nat \<Rightarrow> string) \<Rightarrow> 'e state \<Rightarrow> 'e state" where
  "bootstrap = bootstrap_with DEFAULT_CLASS_LIST"

subsection \<open>Lines 70 to 77: the cached spreadsheet reader\<close>

text \<open>
  \<open>worksheet.get_all_records()\<close> of the spreadsheet library: the first row holds the
  keys, every later row becomes one record. Cell values are kept as strings.
\<close>

definition get_all_records :: "row list \<Rightarrow> dataframe" where
  "get_all_records rows = (case rows of [] \<Rightarrow> [] | header # vals \<Rightarrow> map (zip header) vals)"

text \<open>\<open>client.open_by_url(...).worksheet(title)\<close>; no worksheet has the title \<open>None\<close>.\<close>

definition worksheet :: "'e state \<Rightarrow> string option \<Rightarrow> row list option" where
  "worksheet s title = (case title of None \<Rightarrow> None | Some t \<Rightarrow> worksheets s t)"

definition get_class_data :: "string option \<Rightarrow> 'e state \<Rightarrow> dataframe \<times> 'e state" where
  "get_class_data class_name s =
     (case cache s class_name of
        Some df \<Rightarrow> (df, s)
      | None \<Rightarrow>
          (let df = (case worksheet s class_name of
                       Some rows \<Rightarrow> get_all_records rows
                     | None \<Rightarrow> [])
           in (df, s\<lparr>cache := (cache s)(class_name \<mapsto> df)\<rparr>)))"

text \<open>\<open>df.empty\<close>: no record, or no column in any record.\<close>

definition df_empty :: "dataframe \<Rightarrow> bool" where
  "df_empty df = (concat (map keys df) = [])"

subsection \<open>Lines 94 to 113: the registration handler\<close>

definition tab1 ::
  "('img \<Rightarrow> 'e list) \<Rightarrow> string \<Rightarrow> string \<Rightarrow> string \<Rightarrow> string \<Rightarrow> 'img option \<Rightarrow> bool \<Rightarrow>
   'e state \<Rightarrow> outcome \<times> 'e state" where
  "tab1 face_encodings reg_name reg_id reg_email reg_phone reg_img reg_submit s =
     (if \<not> reg_submit then (Nothing, s)
      else if reg_name = [] \<or> reg_id = [] \<or> reg_email = [] \<or> reg_phone = [] then
        (Shown FillAllFields, s)
      else (case reg_img of
        None \<Rightarrow> (Shown CaptureFaceImage, s)
      | Some img \<Rightarrow>
          if CHR ''@'' \<notin> set reg_email \<or> CHR ''.'' \<notin> set reg_email then
            (Shown InvalidEmail, s)
          else if \<not> isdigit reg_phone \<or> length reg_phone < 10 \<or> length reg_phone > 15 then
            (Shown InvalidPhone, s)
          else (case face_encodings img of
            [] \<Rightarrow> (Shown NoFaceDetected, s)
          | e0 # _ \<Rightarrow>
              (let faces = known_faces s @ [e0];
                   metas = known_metadata s @
                     [[(''name'', reg_name), (''student_id'', reg_id),
                       (''email'', reg_email), (''phone'', reg_phone)]]
               in (Shown (Registered reg_name),
                   s\<lparr>known_faces := faces, known_metadata := metas,
                     known_faces_pkl := Some (faces, metas),
                     calls := calls s @ [PickleDump ''known_faces.pkl'']\<rparr>)))))"

subsection \<open>Lines 121 to 163: the attendance handler\<close>

text \<open>
  \<open>face_recognition.face_distance\<close> is a library function: \<open>distance\<close> is the distance it
  computes between one known embedding and the query, a number (never NaN). Distances are
  reals: the double written \<open>0.45\<close> lies just above the real 0.45 with no double in
  between, so a double is below the one exactly when it is below the other.
\<close>

definition face_distance :: "('e \<Rightarrow> 'e \<Rightarrow> real) \<Rightarrow> 'e list \<Rightarrow> 'e \<Rightarrow> real list" where
  "face_distance distance faces q = map (\<lambda>f. distance f q) faces"

text \<open>Lines 131 and 132: \<open>min_distance\<close> and \<open>best_match_index\<close>.\<close>

definition best_match :: "real list \<Rightarrow> py_error + (real \<times> nat)" where
  "best_match distances =
     (case py_min distances of
        Inl e \<Rightarrow> Inl e
      | Inr min_distance \<Rightarrow>
          (case py_index distances min_distance of
             Inl e \<Rightarrow> Inl e
           | Inr best_match_index \<Rightarrow> Inr (min_distance, best_match_index)))"

definition HEADER :: row where
  "HEADER = [''Timestamp'', ''Name'', ''Student ID'', ''Email'', ''Phone'', ''Class'',
             ''Status'', ''Image URL'']"

definition dict_get :: "'v dict \<Rightarrow> string \<Rightarrow> 'v \<Rightarrow> 'v" where
  "dict_get d k dflt = (case map_of d k of None \<Rightarrow> dflt | Some v \<Rightarrow> v)"

text \<open>Lines 135 to 161, for the matched metadata; \<open>timestamp\<close> is the formatted clock.\<close>

definition submit ::
  "(nat \<Rightarrow> string) \<Rightarrow> string \<Rightarrow> string option \<Rightarrow> metadata \<Rightarrow> 'e state \<Rightarrow> outcome \<times> 'e state" where
  "submit ids timestamp selected_class matched s =
     (case map_of matched ''name'' of
        None \<Rightarrow> (Raised KeyError, s)
      | Some name \<Rightarrow>
     (case map_of matched ''student_id'' of
        None \<Rightarrow> (Raised KeyError, s)
      | Some student_id \<Rightarrow>
     (let filename = name @ ''_'' @ student_id @ ''_'' @ py_str selected_class @ ''_'' @
                     replace_char CHR '':'' CHR ''-'' timestamp @ ''.jpg''
      in case class_folders s of
        None \<Rightarrow> (Raised AttributeError, s)
      | Some folders \<Rightarrow>
     (case selected_class of
        None \<Rightarrow> (Raised KeyError, s)
      | Some cls \<Rightarrow>
     (case map_of folders cls of
        None \<Rightarrow> (Raised KeyError, s)
      | Some parent \<Rightarrow>
     (case drive_create ids (DriveUpload filename parent) (calls s) of
        (uploaded_id, cs1) \<Rightarrow>
     (let file_url = ''https://drive.google.com/file/d/'' @ uploaded_id @ ''/view'';
          s1 = s\<lparr>calls := cs1\<rparr>;
          s2 = (case worksheet s1 selected_class of
                  Some _ \<Rightarrow> s1
                | None \<Rightarrow>
                    s1\<lparr>worksheets := (worksheets s1)(cls \<mapsto> [HEADER]),
                       calls := calls s1 @ [AddWorksheet cls, AppendRow cls HEADER]\<rparr>);
          new_row = [timestamp, name, student_id, dict_get matched ''email'' '''',
                     dict_get matched ''phone'' '''', cls, ''Present'', file_url];
          rows = (case worksheets s2 cls of Some r \<Rightarrow> r | None \<Rightarrow> [])
      in (Shown (AttendanceSubmitted name student_id),
          s2\<lparr>worksheets := (worksheets s2)(cls \<mapsto> rows @ [new_row]),
             calls := calls s2 @ [AppendRow cls new_row]\<rparr>))))))))"

text \<open>
  Lines 126 to 134 and 162 to 163: the nearest-neighbour lookup with its threshold. The
  result says which branch of the handler is taken; \<open>Match\<close> carries
  \<open>known_metadata[best_match_index]\<close> and \<open>min_distance\<close>.
\<close>

definition match_face ::
  "('e \<Rightarrow> 'e \<Rightarrow> real) \<Rightarrow> 'e \<Rightarrow> 'e state \<Rightarrow> match_result \<times> 'e state" where
  "match_face distance face_encoding s =
     (if known_faces s = [] then (NoMatchEmptyGallery, s)
      else
        (let distances = face_distance distance (known_faces s) face_encoding;
             s1 = s\<lparr>calls := calls s @ [FaceDistanceCall]\<rparr>
         in case best_match distances of
              Inl e \<Rightarrow> (MatchError e, s1)
            | Inr (min_distance, best_match_index) \<Rightarrow>
                if min_distance < 0.45 then
                  (if best_match_index < length (known_metadata s1) then
                     (Match (known_metadata s1 ! best_match_index) min_distance, s1)
                   else (MatchError IndexError, s1))
                else (NoMatchBelowThreshold, s1)))"

definition tab2 ::
  "('img \<Rightarrow> 'e list) \<Rightarrow> ('e \<Rightarrow> 'e \<Rightarrow> real) \<Rightarrow> (nat \<Rightarrow> string) \<Rightarrow> string \<Rightarrow>
   string option \<Rightarrow> 'img option \<Rightarrow> 'e state \<Rightarrow> outcome \<times> 'e state" where
  "tab2 face_encodings distance ids timestamp selected_class face_img s =
     (case face_img of
        None \<Rightarrow> (Nothing, s)
      | Some img \<Rightarrow>
          (case face_encodings img of
             [] \<Rightarrow> (Shown NoFaceDetected, s)
           | face_encoding # _ \<Rightarrow>
               (case match_face distance face_encoding s of
                  (NoMatchEmptyGallery, s1) \<Rightarrow> (Shown NoRegisteredFaces, s1)
                | (MatchError e, s1) \<Rightarrow> (Raised e, s1)
                | (Match matched min_distance, s1) \<Rightarrow>
                    submit ids timestamp selected_class matched s1
                | (NoMatchBelowThreshold, s1) \<Rightarrow> (Shown FaceNotRecognized, s1))))"

text \<open>
  \<open>st.selectbox(label, options)\<close>: the option the user chose, the first one when nothing
  (or nothing still listed) was chosen, and \<open>None\<close> when there is no option.
  \<open>choice\<close> is the position of the chosen option.
\<close>

definition selectbox :: "string list \<Rightarrow> nat \<Rightarrow> string option" where
  "selectbox options choice =
     (case options of
        [] \<Rightarrow> None
      | first # _ \<Rightarrow> Some (if choice < length options then options ! choice else first))"

text \<open>Lines 116 to 163: the attendance tab, with its select box over the class names.\<close>

definition attendance_tab ::
  "('img \<Rightarrow> 'e list) \<Rightarrow> ('e \<Rightarrow> 'e \<Rightarrow> real) \<Rightarrow> (nat \<Rightarrow> string) \<Rightarrow> string \<Rightarrow>
   nat \<Rightarrow> 'img option \<Rightarrow> 'e state \<Rightarrow> outcome \<times> 'e state" where
  "attendance_tab face_encodings distance ids timestamp choice face_img s =
     (case class_folders s of
        None \<Rightarrow> (Raised AttributeError, s)
      | Some folders \<Rightarrow>
          tab2 face_encodings distance ids timestamp (selectbox (keys folders) choice)
            face_img s)"

subsection \<open>Lines 169 to 200: adding and removing a class\<close>

definition add_class ::
  "(nat \<Rightarrow> string) \<Rightarrow> string \<Rightarrow> string \<Rightarrow> bool \<Rightarrow> 'e state \<Rightarrow> outcome \<times> 'e state" where
  "add_class ids admin_code new_class clicked s =
     (if admin_code = ''admin123'' then
        (if clicked then
           (if strip new_class = '''' then (Shown ClassNameEmpty, s)
            else (case class_folders s of
              None \<Rightarrow> (Raised AttributeError, s)
            | Some folders \<Rightarrow>
                if dict_in new_class folders then (Shown ClassAlreadyExists, s)
                else (case drive_create ids (DriveCreateFolder new_class) (calls s) of
                  (folder_id, cs) \<Rightarrow>
                    (let folders' = dict_set folders new_class folder_id
                     in (Shown (ClassAdded new_class),
                         s\<lparr>class_folders := Some folders',
                           class_folders_pkl := Some folders',
                           calls := cs @ [PickleDump CLASS_FOLDERS_FILE]\<rparr>)))))
         else (Nothing, s))
      else (if admin_code \<noteq> '''' then (Shown EnterValidAdminCode, s) else (Nothing, s)))"

text \<open>
  The class to remove comes from a select box over the keys, so it is a key; the button
  is only drawn when the dict is not empty.
\<close>

definition remove_class ::
  "string \<Rightarrow> string \<Rightarrow> bool \<Rightarrow> 'e state \<Rightarrow> outcome \<times> 'e state" where
  "remove_class admin_code class_to_remove clicked s =
     (if admin_code = ''admin123'' then
        (case class_folders s of
           None \<Rightarrow> (Raised AttributeError, s)
         | Some folders \<Rightarrow>
             if folders \<noteq> [] \<and> clicked then
               (if dict_in class_to_remove folders then
                  (let folders' = dict_del folders class_to_remove
                   in (Shown (ClassRemoved class_to_remove),
                       s\<lparr>class_folders := Some folders',
                         class_folders_pkl := Some folders',
                         calls := calls s @ [PickleDump CLASS_FOLDERS_FILE]\<rparr>))
                else (Raised KeyError, s))
             else (Nothing, s))
      else (if admin_code \<noteq> '''' then (Shown EnterValidAdminCode, s) else (Nothing, s)))"

subsection \<open>Lines 229 to 247: the CSV download handler\<close>

text \<open>
  \<open>df[df['Timestamp'].str.startswith(str(download_date))]\<close>: the records whose
  \<open>Timestamp\<close> starts with the date; a record without that column raises.
\<close>

fun filter_by_date :: "string \<Rightarrow> dataframe \<Rightarrow> py_error + dataframe" where
  "filter_by_date date [] = Inr []"
| "filter_by_date date (r # rs) =
     (case map_of r ''Timestamp'' of
        None \<Rightarrow> Inl KeyError
      | Some ts \<Rightarrow>
          (case filter_by_date date rs of
             Inl e \<Rightarrow> Inl e
           | Inr out \<Rightarrow> Inr (if startswith ts date then r # out else out)))"

definition download_csv ::
  "string \<Rightarrow> string option \<Rightarrow> string \<Rightarrow> bool \<Rightarrow> 'e state \<Rightarrow> outcome \<times> 'e state" where
  "download_csv admin_code download_class download_date clicked s =
     (if admin_code = ''admin123'' then
        (if clicked then
           (case get_class_data download_class s of
              (df, s') \<Rightarrow>
                if df_empty df then (Shown NoAttendanceDataForClass, s')
                else (case filter_by_date download_date df of
                  Inl e \<Rightarrow> (Raised e, s')
                | Inr filtered_df \<Rightarrow>
                    if df_empty filtered_df then (Shown NoDataForDate, s')
                    else (Shown (DownloadCsv filtered_df), s')))
         else (Nothing, s))
      else (if admin_code \<noteq> '''' then (Shown EnterValidAdminCode, s) else (Nothing, s)))"

subsection \<open>Lines 204 to 221: the attendance dashboard\<close>

text \<open>
  The dashboard reads the selected class through the same cached reader, on every run of
  the admin panel and before the download section. Its two tables and its pie chart are
  computed from the filtered frame; \<open>groupby(["Student ID", "Name"])\<close> raises when one
  of the two columns is missing.
\<close>

definition dashboard ::
  "string \<Rightarrow> string option \<Rightarrow> string \<Rightarrow> 'e state \<Rightarrow> outcome \<times> 'e state" where
  "dashboard admin_code selected date s =
     (if admin_code = ''admin123'' then
        (case get_class_data selected s of
           (df, s') \<Rightarrow>
             if df_empty df then (Shown NoDataYet, s')
             else (case filter_by_date date df of
               Inl e \<Rightarrow> (Raised e, s')
             | Inr filtered_df \<Rightarrow>
                 if df_empty filtered_df then (Shown NoDataForDate, s')
                 else if list_all (\<lambda>c. list_ex (\<lambda>r. c \<in> set (keys r)) filtered_df)
                           [''Student ID'', ''Name'']
                 then (Shown (AttendanceCharts filtered_df), s')
                 else (Raised KeyError, s')))
      else (if admin_code \<noteq> '''' then (Shown EnterValidAdminCode, s) else (Nothing, s)))"

text \<open>
  Lines 204 to 247 in one run: the dashboard, then the download section; an exception in
  the dashboard ends the run before the download section.
\<close>

definition admin_report ::
  "string \<Rightarrow> string option \<Rightarrow> string \<Rightarrow> string option \<Rightarrow> string \<Rightarrow> bool \<Rightarrow>
   'e state \<Rightarrow> outcome \<times> 'e state" where
  "admin_report admin_code selected date download_class download_date clicked s =
     (case dashboard admin_code selected date s of
        (Raised e, s') \<Rightarrow> (Raised e, s')
      | (_, s') \<Rightarrow> download_csv admin_code download_class download_date clicked s')"

subsection \<open>The gallery invariant\<close>

text \<open>
  Every embedding index has one metadata entry, in memory and in the persisted file.
\<close>

definition gallery_inv :: "'e state \<Rightarrow> bool" where
  "gallery_inv s =
     (length (known_faces s) = length (known_metadata s) \<and>
      (case known_faces_pkl s of
         None \<Rightarrow> True
       | Some (encodings, metadata) \<Rightarrow> length encodings = length metadata))"

subsection \<open>Concrete states and inputs\<close>

text \<open>
  Small concrete inputs on which the definitions are evaluated: embeddings are single
  numbers and the distance is their absolute difference.
\<close>

definition abs_distance :: "real \<Rightarrow> real \<Rightarrow> real" where
  "abs_distance a b = \<bar>a - b\<bar>"

text \<open>Results of the embedding extraction for an image with no, one and two faces.\<close>

definition no_face :: "unit \<Rightarrow> real list" where
  "no_face img = []"

definition one_face :: "unit \<Rightarrow> real list" where
  "one_face img = [6/5]"

definition two_faces :: "unit \<Rightarrow> real list" where
  "two_faces img = [6/5, 2]"

definition demo_ids :: "nat \<Rightarrow> string" where
  "demo_ids n = ''id'' @ replicate n CHR ''+''"

definition ann :: metadata where
  "ann = [(''name'', ''Ann''), (''student_id'', ''S1''), (''email'', ''ann@x.org''),
          (''phone'', ''0123456789'')]"

definition bob :: metadata where
  "bob = [(''name'', ''Bob''), (''student_id'', ''S2''), (''email'', ''bob@x.org''),
          (''phone'', ''0123456780'')]"

definition cat :: metadata where
  "cat = [(''name'', ''Cat''), (''student_id'', ''S3''), (''email'', ''cat@x.org''),
          (''phone'', ''0123456781'')]"

definition fresh_state :: "real state" where
  "fresh_state =
     \<lparr>known_faces = [], known_metadata = [], known_faces_pkl = None,
      class_folders = None, class_folders_pkl = None,
      worksheets = Map.empty, cache = Map.empty, calls = []\<rparr>"

definition demo_state :: "real state" where
  "demo_state =
     \<lparr>known_faces = [1, 3, 1], known_metadata = [ann, bob, cat],
      known_faces_pkl = Some ([1, 3, 1], [ann, bob, cat]),
      class_folders = Some [(''Maths'', ''folder-1'')],
      class_folders_pkl = Some [(''Maths'', ''folder-1'')],
      worksheets = Map.empty, cache = Map.empty, calls = []\<rparr>"

text \<open>A gallery whose second and third entries are the same embedding.\<close>

definition tie_state :: "real state" where
  "tie_state =
     demo_state\<lparr>known_faces := [3, 1, 1], known_faces_pkl := Some ([3, 1, 1], [ann, bob, cat])\<rparr>"

text \<open>The state after the admin has removed the only class.\<close>

definition empty_registry_state :: "real state" where
  "empty_registry_state = snd (remove_class ''admin123'' ''Maths'' True demo_state)"



text \<open>A worksheet with one attendance row, of the first of March.\<close>

definition one_row_state :: "real state" where
  "one_row_state =
     demo_state\<lparr>worksheets :=
       [''Maths'' \<mapsto> [HEADER, [''2025-03-01 09:00:00'', ''Ann'', ''S1'', ''ann@x.org'',
                                ''0123456789'', ''Maths'', ''Present'', ''url'']]]\<rparr>"

section \<open>Properties\<close>

subsection \<open>The built-in minimum and index\<close>

lemma min_from_Min: "min_from m xs = Min (set (m # xs))"
proof (induction xs arbitrary: m)
  case Nil
  show ?case by simp
next
  case (Cons x xs)
  have "min_from m (x # xs) = Min (insert (if x < m then x else m) (set xs))"
    using Cons.IH by simp
  also have "\<dots> = Min (insert m (insert x (set xs)))"
    by (cases "set xs = {}") (auto simp: min_def)
  finally show ?case by simp
qed

lemma py_min_Min: "xs \<noteq> [] \<Longrightarrow> py_min xs = Inr (Min (set xs))"
  by (cases xs) (simp_all add: py_min_def min_from_Min)

lemma py_index_first:
  "v \<in> set xs \<Longrightarrow>
   \<exists>i. py_index xs v = Inr i \<and> i < length xs \<and> xs ! i = v \<and> (\<forall>j<i. xs ! j \<noteq> v)"
proof (induction xs)
  case Nil
  then show ?case by simp
next
  case (Cons x xs)
  show ?case
  proof (cases "x = v")
    case True
    then show ?thesis by simp
  next
    case False
    with Cons.prems have "v \<in> set xs" by simp
    from Cons.IH [OF this] obtain i where
      i: "py_index xs v = Inr i" "i < length xs" "xs ! i = v" "\<forall>j<i. xs ! j \<noteq> v"
      by blast
    have "\<forall>j<Suc i. (x # xs) ! j \<noteq> v"
      using False i(4) by (auto simp: less_Suc_eq_0_disj)
    with False i show ?thesis by simp
  qed
qed

lemma best_match_first:
  assumes "ds \<noteq> []"
  shows "\<exists>i. best_match ds = Inr (Min (set ds), i) \<and> i < length ds \<and>
             ds ! i = Min (set ds) \<and> (\<forall>j<i. ds ! j \<noteq> Min (set ds))"
proof -
  have "Min (set ds) \<in> set ds" using assms by (intro Min_in) simp_all
  from py_index_first [OF this] show ?thesis
    using assms by (auto simp: best_match_def py_min_Min)
qed

lemma face_distance_length [simp]: "length (face_distance distance faces q) = length faces"
  by (simp add: face_distance_def)

lemma face_distance_Nil_iff [simp]: "face_distance distance faces q = [] \<longleftrightarrow> faces = []"
  by (simp add: face_distance_def)

lemma face_distance_nth: "i < length faces \<Longrightarrow> face_distance distance faces q ! i = distance (faces ! i) q"
  by (simp add: face_distance_def)

lemma set_face_distance:
  "set (face_distance distance faces q) = (\<lambda>f. distance f q) ` set faces"
  by (simp add: face_distance_def)

lemma match_face_nearest:
  assumes "known_faces s \<noteq> []" "length (known_metadata s) = length (known_faces s)"
  shows "\<exists>i. i < length (known_faces s) \<and>
           distance (known_faces s ! i) q = Min ((\<lambda>f. distance f q) ` set (known_faces s)) \<and>
           (\<forall>j<i. distance (known_faces s ! j) q
                    \<noteq> Min ((\<lambda>f. distance f q) ` set (known_faces s))) \<and>
           best_match (face_distance distance (known_faces s) q)
             = Inr (Min ((\<lambda>f. distance f q) ` set (known_faces s)), i) \<and>
           match_face distance q s =
             (if Min ((\<lambda>f. distance f q) ` set (known_faces s)) < 0.45
              then Match (known_metadata s ! i)
                     (Min ((\<lambda>f. distance f q) ` set (known_faces s)))
              else NoMatchBelowThreshold,
              s\<lparr>calls := calls s @ [FaceDistanceCall]\<rparr>)"
proof -
  let ?ds = "face_distance distance (known_faces s) q"
  let ?m = "Min ((\<lambda>f. distance f q) ` set (known_faces s))"
  have m: "Min (set ?ds) = ?m" by (simp add: set_face_distance)
  have "?ds \<noteq> []" using assms(1) by simp
  from best_match_first [OF this] obtain i where
    i: "best_match ?ds = Inr (?m, i)" "i < length ?ds"
       "?ds ! i = ?m" "\<forall>j<i. ?ds ! j \<noteq> ?m"
    unfolding m by blast
  have l: "i < length (known_faces s)" using i(2) by simp
  have d: "distance (known_faces s ! i) q = ?m"
    using i(3) l by (simp add: face_distance_nth)
  have n: "\<forall>j<i. distance (known_faces s ! j) q \<noteq> ?m"
    using i(4) l by (simp add: face_distance_nth)
  have r: "match_face distance q s =
             (if ?m < 0.45 then Match (known_metadata s ! i) ?m else NoMatchBelowThreshold,
              s\<lparr>calls := calls s @ [FaceDistanceCall]\<rparr>)"
    using i(1) l assms by (simp add: match_face_def Let_def)
  show ?thesis using l d n i(1) r by blast
qed

subsection \<open>The matcher\<close>

lemma demo_gallery:
  "known_faces demo_state \<noteq> []"
  "length (known_metadata demo_state) = length (known_faces demo_state)"
  by (simp_all add: demo_state_def)

lemma demo_nearest:
  "Min ((\<lambda>f. abs_distance f (14/5)) ` set (known_faces demo_state)) = 1/5"
  "Min ((\<lambda>f. abs_distance f (29/20)) ` set (known_faces demo_state)) = 0.45"
  by (simp_all add: demo_state_def abs_distance_def)

text \<open>
  C1. For a gallery that is not empty (one metadata entry per embedding), take the minimum
  of the distances between the query and every gallery embedding. If it is strictly below
  0.45 the matcher accepts and returns the metadata stored at an index whose embedding
  attains that minimum, together with the minimum. If it is not, and so when it is exactly
  0.45, the result is the below-threshold rejection. The handler submits the attendance
  in the first case and shows "Face not recognized" in the second.
\<close>

theorem C1_threshold:
  assumes "known_faces s \<noteq> []" "length (known_metadata s) = length (known_faces s)"
  shows "(Min ((\<lambda>f. distance f q) ` set (known_faces s)) < 0.45 \<longrightarrow>
            (\<exists>i<length (known_faces s).
               distance (known_faces s ! i) q
                 = Min ((\<lambda>f. distance f q) ` set (known_faces s)) \<and>
               match_face distance q s =
                 (Match (known_metadata s ! i)
                    (Min ((\<lambda>f. distance f q) ` set (known_faces s))),
                  s\<lparr>calls := calls s @ [FaceDistanceCall]\<rparr>))) \<and>
         (\<not> Min ((\<lambda>f. distance f q) ` set (known_faces s)) < 0.45 \<longrightarrow>
            match_face distance q s
              = (NoMatchBelowThreshold, s\<lparr>calls := calls s @ [FaceDistanceCall]\<rparr>)) \<and>
         ((\<exists>m d. fst (match_face distance q s) = Match m d) \<longleftrightarrow>
            Min ((\<lambda>f. distance f q) ` set (known_faces s)) < 0.45) \<and>
         (Min ((\<lambda>f. distance f q) ` set (known_faces s)) = 0.45 \<longrightarrow>
            fst (match_face distance q s) = NoMatchBelowThreshold) \<and>
         (face_encodings img = q # rest \<longrightarrow>
            tab2 face_encodings distance ids timestamp selected_class (Some img) s =
              (case match_face distance q s of
                 (Match matched d, s1) \<Rightarrow> submit ids timestamp selected_class matched s1
               | (_, s1) \<Rightarrow> (Shown FaceNotRecognized, s1)))"
proof -
  let ?m = "Min ((\<lambda>f. distance f q) ` set (known_faces s))"
  from match_face_nearest [OF assms, of distance q] obtain i where
    i: "i < length (known_faces s)" "distance (known_faces s ! i) q = ?m" and
    r: "match_face distance q s =
             (if ?m < 0.45 then Match (known_metadata s ! i) ?m else NoMatchBelowThreshold,
              s\<lparr>calls := calls s @ [FaceDistanceCall]\<rparr>)"
    by blast
  have a: "?m < 0.45 \<longrightarrow>
            (\<exists>i<length (known_faces s). distance (known_faces s ! i) q = ?m \<and>
               match_face distance q s =
                 (Match (known_metadata s ! i) ?m, s\<lparr>calls := calls s @ [FaceDistanceCall]\<rparr>))"
    using i r by auto
  have b: "\<not> ?m < 0.45 \<longrightarrow>
            match_face distance q s
              = (NoMatchBelowThreshold, s\<lparr>calls := calls s @ [FaceDistanceCall]\<rparr>)"
    using r by simp
  have c: "(\<exists>m d. fst (match_face distance q s) = Match m d) \<longleftrightarrow> ?m < 0.45"
    unfolding r by simp
  have d: "?m = 0.45 \<longrightarrow> fst (match_face distance q s) = NoMatchBelowThreshold"
    unfolding r by simp
  have e: "face_encodings img = q # rest \<longrightarrow>
            tab2 face_encodings distance ids timestamp selected_class (Some img) s =
              (case match_face distance q s of
                 (Match matched d, s1) \<Rightarrow> submit ids timestamp selected_class matched s1
               | (_, s1) \<Rightarrow> (Shown FaceNotRecognized, s1))"
    unfolding r by (simp add: tab2_def r)
  show ?thesis using a b c d e by blast
qed

theorem C1_threshold_witness:
  "Min ((\<lambda>f. abs_distance f (14/5)) ` set (known_faces demo_state)) = 1/5 \<and>
   fst (match_face abs_distance (14/5) demo_state) = Match bob (1/5) \<and>
   Min ((\<lambda>f. abs_distance f (29/20)) ` set (known_faces demo_state)) = 0.45 \<and>
   fst (match_face abs_distance (29/20) demo_state) = NoMatchBelowThreshold"
proof -
  have f: "abs_distance (known_faces demo_state ! 0) (14/5) = 9/5"
    "abs_distance (known_faces demo_state ! 1) (14/5) = 1/5"
    "abs_distance (known_faces demo_state ! 2) (14/5) = 9/5"
    "known_metadata demo_state ! 1 = bob" "length (known_faces demo_state) = 3"
    by (simp_all add: demo_state_def abs_distance_def)
  note t = C1_threshold [OF demo_gallery, where distance = abs_distance and q = "14/5"
      and face_encodings = one_face and img = "()" and rest = "[]" and ids = demo_ids
      and timestamp = "''2025-03-01 09:00:00''" and selected_class = "Some ''Maths''"]
  have lt: "Min ((\<lambda>f. abs_distance f (14/5)) ` set (known_faces demo_state)) < 0.45"
    by (simp add: demo_nearest)
  from t [THEN conjunct1, rule_format, OF lt]
  obtain i where "i < length (known_faces demo_state)"
    "abs_distance (known_faces demo_state ! i) (14/5)
       = Min ((\<lambda>f. abs_distance f (14/5)) ` set (known_faces demo_state))"
    "match_face abs_distance (14/5) demo_state =
       (Match (known_metadata demo_state ! i)
          (Min ((\<lambda>f. abs_distance f (14/5)) ` set (known_faces demo_state))),
        demo_state\<lparr>calls := calls demo_state @ [FaceDistanceCall]\<rparr>)"
    by blast
  then have i: "i < 3" "abs_distance (known_faces demo_state ! i) (14/5) = 1/5"
    "match_face abs_distance (14/5) demo_state =
       (Match (known_metadata demo_state ! i) (1/5),
        demo_state\<lparr>calls := calls demo_state @ [FaceDistanceCall]\<rparr>)"
    unfolding demo_nearest f(5) by simp_all
  have "i = 0 \<or> i = 1 \<or> i = 2" using i(1) by auto
  then have "i = 1" using i(2) f(1,3) by auto
  then have a: "fst (match_face abs_distance (14/5) demo_state) = Match bob (1/5)"
    using i(3) f(4) by simp
  have b: "fst (match_face abs_distance (29/20) demo_state) = NoMatchBelowThreshold"
    using C1_threshold [OF demo_gallery, where distance = abs_distance and q = "29/20"
      and face_encodings = one_face and img = "()" and rest = "[]" and ids = demo_ids
      and timestamp = "''2025-03-01 09:00:00''" and selected_class = "Some ''Maths''"]
    unfolding demo_nearest by simp
  show ?thesis using a b demo_nearest by simp
qed

text \<open>
  C2. Against an empty gallery the matcher returns the empty-gallery result, which is not
  the below-threshold result, and leaves the state as it is: the call log gains no
  distance computation. The handler then shows "No registered faces found".
\<close>

theorem C2_empty_gallery:
  assumes "known_faces s = []"
  shows "match_face distance q s = (NoMatchEmptyGallery, s) \<and>
         (face_encodings img = q # rest \<longrightarrow>
            tab2 face_encodings distance ids timestamp selected_class (Some img) s
              = (Shown NoRegisteredFaces, s)) \<and>
         fst (match_face distance q s) \<noteq> NoMatchBelowThreshold \<and>
         FaceDistanceCall \<notin> set (calls (snd (match_face distance q s))) - set (calls s)"
  using assms by (simp add: match_face_def tab2_def)

theorem C2_empty_gallery_witness:
  "known_faces fresh_state = [] \<and>
   tab2 two_faces abs_distance demo_ids ''2025-03-01 09:00:00'' (Some ''Maths'')
     (Some ()) fresh_state = (Shown NoRegisteredFaces, fresh_state)"
proof -
  have a: "known_faces fresh_state = []" by (simp add: fresh_state_def)
  show ?thesis
    using C2_empty_gallery [OF a, of abs_distance "6/5" two_faces "()" "[2]"
        demo_ids "''2025-03-01 09:00:00''" "Some ''Maths''"] a
    by (simp add: two_faces_def)
qed

lemma tie_gallery:
  "known_faces tie_state \<noteq> []"
  "length (known_metadata tie_state) = length (known_faces tie_state)"
  by (simp_all add: tie_state_def demo_state_def)

text \<open>
  C6. When several gallery entries attain the minimum distance to the query, taken over
  every gallery embedding, \<open>best_match_index\<close> is the index of the earliest of them,
  and an accepted match returns the metadata stored at that index.
\<close>

theorem C6_first_minimum_wins:
  assumes "known_faces s \<noteq> []" "length (known_metadata s) = length (known_faces s)"
    and "i < length (known_faces s)"
    and "distance (known_faces s ! i) q = Min ((\<lambda>f. distance f q) ` set (known_faces s))"
    and "\<forall>j<i. distance (known_faces s ! j) q
                 \<noteq> Min ((\<lambda>f. distance f q) ` set (known_faces s))"
  shows "best_match (face_distance distance (known_faces s) q)
           = Inr (Min ((\<lambda>f. distance f q) ` set (known_faces s)), i) \<and>
         (Min ((\<lambda>f. distance f q) ` set (known_faces s)) < 0.45 \<longrightarrow>
            match_face distance q s
              = (Match (known_metadata s ! i)
                   (Min ((\<lambda>f. distance f q) ` set (known_faces s))),
                 s\<lparr>calls := calls s @ [FaceDistanceCall]\<rparr>))"
proof -
  let ?m = "Min ((\<lambda>f. distance f q) ` set (known_faces s))"
  from match_face_nearest [OF assms(1,2), of distance q] obtain k where
    k: "k < length (known_faces s)" "distance (known_faces s ! k) q = ?m"
       "\<forall>j<k. distance (known_faces s ! j) q \<noteq> ?m"
    and b: "best_match (face_distance distance (known_faces s) q) = Inr (?m, k)"
    and r: "match_face distance q s =
             (if ?m < 0.45 then Match (known_metadata s ! k) ?m else NoMatchBelowThreshold,
              s\<lparr>calls := calls s @ [FaceDistanceCall]\<rparr>)"
    by blast
  have "k = i"
  proof (rule ccontr)
    assume "k \<noteq> i"
    then consider "k < i" | "i < k" by linarith
    then show False
    proof cases
      case 1
      then show False using assms(5) k(2) by blast
    next
      case 2
      then show False using k(3) assms(4) by blast
    qed
  qed
  then show ?thesis using b r by simp
qed

theorem C6_first_minimum_wins_witness:
  "abs_distance (known_faces tie_state ! 0) (6/5) = 9/5 \<and>
   abs_distance (known_faces tie_state ! 1) (6/5) = 1/5 \<and>
   abs_distance (known_faces tie_state ! 2) (6/5) = 1/5 \<and>
   Min ((\<lambda>f. abs_distance f (6/5)) ` set (known_faces tie_state)) = 1/5 \<and>
   best_match (face_distance abs_distance (known_faces tie_state) (6/5)) = Inr (1/5, 1) \<and>
   fst (match_face abs_distance (6/5) tie_state) = Match bob (1/5)"
proof -
  have m: "Min ((\<lambda>f. abs_distance f (6/5)) ` set (known_faces tie_state)) = 1/5"
    by (simp add: tie_state_def demo_state_def abs_distance_def)
  have d: "abs_distance (known_faces tie_state ! 0) (6/5) = 9/5"
      "abs_distance (known_faces tie_state ! 1) (6/5) = 1/5"
      "abs_distance (known_faces tie_state ! 2) (6/5) = 1/5"
      "known_metadata tie_state ! 1 = bob" "1 < length (known_faces tie_state)"
    by (simp_all add: tie_state_def demo_state_def abs_distance_def)
  have l: "\<forall>j<1. abs_distance (known_faces tie_state ! j) (6/5) \<noteq> 1/5"
    using d(1) by simp
  show ?thesis
    using C6_first_minimum_wins [OF tie_gallery, of 1 abs_distance "6/5"] d l
    unfolding m by simp
qed

subsection \<open>Registration\<close>

text \<open>
  C3. A registration whose four fields are filled in, whose email contains "@" and ".",
  whose phone number is 10 to 15 digits and whose image yields at least one embedding
  succeeds: the gallery grows by exactly one entry, appended at the end, holding the first
  embedding and the submitted name, student id, email and phone; the file then holds the
  whole gallery, and the write of the file is the one call added to the log.
\<close>

theorem C3_registration:
  assumes "reg_name \<noteq> []" "reg_id \<noteq> []" "reg_email \<noteq> []" "reg_phone \<noteq> []"
    and "CHR ''@'' \<in> set reg_email" "CHR ''.'' \<in> set reg_email"
    and "isdigit reg_phone" "10 \<le> length reg_phone" "length reg_phone \<le> 15"
    and "face_encodings img = e0 # rest"
    and "tab1 face_encodings reg_name reg_id reg_email reg_phone (Some img) True s = (out, s')"
  shows "out = Shown (Registered reg_name) \<and>
         known_faces s' = known_faces s @ [e0] \<and>
         length (known_metadata s') = Suc (length (known_metadata s)) \<and>
         butlast (known_metadata s') = known_metadata s \<and>
         map_of (last (known_metadata s')) ''name'' = Some reg_name \<and>
         map_of (last (known_metadata s')) ''student_id'' = Some reg_id \<and>
         map_of (last (known_metadata s')) ''email'' = Some reg_email \<and>
         map_of (last (known_metadata s')) ''phone'' = Some reg_phone \<and>
         keys (last (known_metadata s')) = [''name'', ''student_id'', ''email'', ''phone''] \<and>
         known_faces_pkl s' = Some (known_faces s', known_metadata s') \<and>
         calls s' = calls s @ [PickleDump ''known_faces.pkl'']"
proof -
  have "tab1 face_encodings reg_name reg_id reg_email reg_phone (Some img) True s =
          (Shown (Registered reg_name),
           s\<lparr>known_faces := known_faces s @ [e0],
             known_metadata := known_metadata s @
               [[(''name'', reg_name), (''student_id'', reg_id),
                 (''email'', reg_email), (''phone'', reg_phone)]],
             known_faces_pkl := Some (known_faces s @ [e0], known_metadata s @
               [[(''name'', reg_name), (''student_id'', reg_id),
                 (''email'', reg_email), (''phone'', reg_phone)]]),
             calls := calls s @ [PickleDump ''known_faces.pkl'']\<rparr>)"
    using assms(1-10) by (simp add: tab1_def Let_def)
  with assms(11) have o: "out = Shown (Registered reg_name)" and
    s': "s' = s\<lparr>known_faces := known_faces s @ [e0],
             known_metadata := known_metadata s @
               [[(''name'', reg_name), (''student_id'', reg_id),
                 (''email'', reg_email), (''phone'', reg_phone)]],
             known_faces_pkl := Some (known_faces s @ [e0], known_metadata s @
               [[(''name'', reg_name), (''student_id'', reg_id),
                 (''email'', reg_email), (''phone'', reg_phone)]]),
             calls := calls s @ [PickleDump ''known_faces.pkl'']\<rparr>"
    by simp_all
  show ?thesis unfolding o s' by (simp add: keys_def)
qed

theorem C3_registration_witness:
  "fst (tab1 one_face ''Dan'' ''S4'' ''dan@x.org'' ''0123456789'' (Some ()) True demo_state)
     = Shown (Registered ''Dan'') \<and>
   known_faces (snd (tab1 one_face ''Dan'' ''S4'' ''dan@x.org'' ''0123456789'' (Some ()) True
     demo_state)) = [1, 3, 1, 6/5] \<and>
   length (known_metadata (snd (tab1 one_face ''Dan'' ''S4'' ''dan@x.org'' ''0123456789''
     (Some ()) True demo_state))) = 4"
proof -
  have d: "isdigit ''0123456789''" by (simp add: isdigit_def isdigit_char_def)
  have k: "known_faces demo_state = [1, 3, 1]" "length (known_metadata demo_state) = 3"
    by (simp_all add: demo_state_def)
  show ?thesis
    using C3_registration [of "''Dan''" "''S4''" "''dan@x.org''" "''0123456789''" one_face "()"
        "6/5" "[]" demo_state
        "fst (tab1 one_face ''Dan'' ''S4'' ''dan@x.org'' ''0123456789'' (Some ()) True demo_state)"
        "snd (tab1 one_face ''Dan'' ''S4'' ''dan@x.org'' ''0123456789'' (Some ()) True demo_state)"]
      d k
    by (simp add: one_face_def)
qed

subsection \<open>Adding a class\<close>

lemma strip_empty_iff: "strip s = [] \<longleftrightarrow> (\<forall>c\<in>set s. isspace c)"
proof
  assume "strip s = []"
  then have a: "\<forall>x\<in>set (dropWhile isspace s). isspace x"
    by (simp add: strip_def dropWhile_eq_Nil_conv)
  have "dropWhile isspace s = []"
  proof (rule ccontr)
    assume n: "dropWhile isspace s \<noteq> []"
    then have "\<not> isspace (hd (dropWhile isspace s))" by (rule hd_dropWhile)
    moreover have "hd (dropWhile isspace s) \<in> set (dropWhile isspace s)" using n by simp
    ultimately show False using a by blast
  qed
  then show "\<forall>c\<in>set s. isspace c" by (simp add: dropWhile_eq_Nil_conv)
next
  assume "\<forall>c\<in>set s. isspace c"
  then have d: "dropWhile isspace s = []" by (simp add: dropWhile_eq_Nil_conv)
  show "strip s = []" unfolding strip_def d by simp
qed

text \<open>
  C10. A class name that is empty or consists of whitespace only is refused: the state
  is unchanged (no registry entry, no folder created, no file written), and with the
  admin code entered and the button pressed the handler shows "Class name cannot be
  empty".
\<close>

theorem C10_blank_class_name:
  assumes "\<forall>c\<in>set new_class. isspace c"
  shows "snd (add_class ids admin_code new_class clicked s) = s \<and>
         (admin_code = ''admin123'' \<and> clicked \<longrightarrow>
            fst (add_class ids admin_code new_class clicked s) = Shown ClassNameEmpty)"
proof -
  have "strip new_class = []" using assms by (simp add: strip_empty_iff)
  then show ?thesis by (simp add: add_class_def)
qed

theorem C10_blank_class_name_witness:
  "isspace CHR '' '' \<and> isspace (CHR 0x09) \<and>
   add_class demo_ids ''admin123'' [CHR '' '', CHR 0x09, CHR '' ''] True demo_state
     = (Shown ClassNameEmpty, demo_state)"
proof -
  have a: "\<forall>c\<in>set [CHR '' '', CHR 0x09, CHR '' '']. isspace c"
    by (simp add: isspace_def)
  show ?thesis
    using C10_blank_class_name [OF a, of demo_ids "''admin123''" True demo_state] a
    by (simp add: prod_eq_iff)
qed

subsection \<open>The gallery invariant is preserved\<close>

lemma submit_gallery:
  "known_faces (snd (submit ids ts sc m s)) = known_faces s \<and>
   known_metadata (snd (submit ids ts sc m s)) = known_metadata s \<and>
   known_faces_pkl (snd (submit ids ts sc m s)) = known_faces_pkl s"
  by (simp add: submit_def Let_def drive_create_def worksheet_def split: option.splits)

lemma match_face_gallery:
  "known_faces (snd (match_face distance q s)) = known_faces s \<and>
   known_metadata (snd (match_face distance q s)) = known_metadata s \<and>
   known_faces_pkl (snd (match_face distance q s)) = known_faces_pkl s"
  by (simp add: match_face_def Let_def split: sum.splits prod.splits)

lemma tab2_gallery:
  "known_faces (snd (tab2 fe distance ids ts sc img s)) = known_faces s \<and>
   known_metadata (snd (tab2 fe distance ids ts sc img s)) = known_metadata s \<and>
   known_faces_pkl (snd (tab2 fe distance ids ts sc img s)) = known_faces_pkl s"
proof (cases img)
  case None
  then show ?thesis by (simp add: tab2_def)
next
  case (Some i)
  show ?thesis
  proof (cases "fe i")
    case Nil
    with Some show ?thesis by (simp add: tab2_def)
  next
    case (Cons q rest)
    obtain r s1 where m: "match_face distance q s = (r, s1)" by (cases "match_face distance q s")
    have g: "known_faces s1 = known_faces s \<and> known_metadata s1 = known_metadata s \<and>
             known_faces_pkl s1 = known_faces_pkl s"
      using match_face_gallery [of distance q s] m by simp
    show ?thesis
      using Some Cons m g submit_gallery [of ids ts sc _ s1]
      by (cases r) (simp_all add: tab2_def)
  qed
qed

lemma bootstrap_gallery:
  "known_faces (bootstrap_with defaults ids s) = known_faces s \<and>
   known_metadata (bootstrap_with defaults ids s) = known_metadata s \<and>
   known_faces_pkl (bootstrap_with defaults ids s) = known_faces_pkl s"
  by (simp add: bootstrap_with_def Let_def split: option.splits prod.splits)

lemma add_class_gallery:
  "known_faces (snd (add_class ids code c b s)) = known_faces s \<and>
   known_metadata (snd (add_class ids code c b s)) = known_metadata s \<and>
   known_faces_pkl (snd (add_class ids code c b s)) = known_faces_pkl s"
  by (simp add: add_class_def Let_def drive_create_def split: option.splits)

lemma remove_class_gallery:
  "known_faces (snd (remove_class code c b s)) = known_faces s \<and>
   known_metadata (snd (remove_class code c b s)) = known_metadata s \<and>
   known_faces_pkl (snd (remove_class code c b s)) = known_faces_pkl s"
  by (simp add: remove_class_def Let_def split: option.splits)

lemma download_csv_gallery:
  "known_faces (snd (download_csv code c d b s)) = known_faces s \<and>
   known_metadata (snd (download_csv code c d b s)) = known_metadata s \<and>
   known_faces_pkl (snd (download_csv code c d b s)) = known_faces_pkl s"
  by (simp add: download_csv_def get_class_data_def Let_def split: option.splits sum.splits)

lemma attendance_tab_gallery:
  "known_faces (snd (attendance_tab fe distance ids ts choice img s)) = known_faces s \<and>
   known_metadata (snd (attendance_tab fe distance ids ts choice img s)) = known_metadata s \<and>
   known_faces_pkl (snd (attendance_tab fe distance ids ts choice img s)) = known_faces_pkl s"
  using tab2_gallery [of fe distance ids ts _ img s]
  by (cases "class_folders s") (simp_all add: attendance_tab_def)

lemma dashboard_gallery:
  "known_faces (snd (dashboard code c d s)) = known_faces s \<and>
   known_metadata (snd (dashboard code c d s)) = known_metadata s \<and>
   known_faces_pkl (snd (dashboard code c d s)) = known_faces_pkl s"
  by (simp add: dashboard_def get_class_data_def Let_def split: option.splits sum.splits)

lemma admin_report_gallery:
  "known_faces (snd (admin_report code c d dc dd b s)) = known_faces s \<and>
   known_metadata (snd (admin_report code c d dc dd b s)) = known_metadata s \<and>
   known_faces_pkl (snd (admin_report code c d dc dd b s)) = known_faces_pkl s"
proof -
  obtain out s' where o: "dashboard code c d s = (out, s')" by (cases "dashboard code c d s")
  have g: "known_faces s' = known_faces s \<and> known_metadata s' = known_metadata s \<and>
           known_faces_pkl s' = known_faces_pkl s"
    using dashboard_gallery [of code c d s] o by simp
  show ?thesis
  proof (cases out)
    case (Raised e)
    then show ?thesis using o g by (simp add: admin_report_def)
  next
    case (Shown m)
    then show ?thesis using o g download_csv_gallery [of code dc dd b s']
      by (simp add: admin_report_def)
  next
    case Nothing
    then show ?thesis using o g download_csv_gallery [of code dc dd b s']
      by (simp add: admin_report_def)
  qed
qed

lemma tab1_cases:
  "snd (tab1 fe n i e p img b s) = s \<or>
   (\<exists>e0 m. snd (tab1 fe n i e p img b s) =
      s\<lparr>known_faces := known_faces s @ [e0], known_metadata := known_metadata s @ [m],
        known_faces_pkl := Some (known_faces s @ [e0], known_metadata s @ [m]),
        calls := calls s @ [PickleDump ''known_faces.pkl'']\<rparr>)"
  by (auto simp: tab1_def Let_def split: option.splits list.splits)

lemma tab1_inv: "gallery_inv s \<Longrightarrow> gallery_inv (snd (tab1 fe n i e p img b s))"
  using tab1_cases [of fe n i e p img b s] by (auto simp: gallery_inv_def)

lemma load_inv: "gallery_inv s \<Longrightarrow> gallery_inv (load_known_faces s)"
  by (auto simp: load_known_faces_def gallery_inv_def split: option.splits)


lemma frame_inv:
  assumes "gallery_inv s"
    and "known_faces s' = known_faces s \<and> known_metadata s' = known_metadata s \<and>
         known_faces_pkl s' = known_faces_pkl s"
  shows "gallery_inv s'"
  using assms by (simp add: gallery_inv_def)

text \<open>
  C9. The gallery invariant (as many metadata entries as embeddings, in memory and in the
  persisted file) is preserved by every block of the script: the load, the class-folder
  bootstrap, registration, check-in (with and without its select box), adding and
  removing a class, the dashboard and the CSV download.
  When the file is missing, the load yields two empty lists.
\<close>

theorem C9_gallery_invariant:
  assumes "gallery_inv s"
  shows "gallery_inv (load_known_faces s) \<and>
         gallery_inv (bootstrap ids s) \<and>
         gallery_inv (snd (tab1 face_encodings reg_name reg_id reg_email reg_phone reg_img
                        reg_submit s)) \<and>
         gallery_inv (snd (tab2 face_encodings distance ids timestamp selected_class face_img
                        s)) \<and>
         gallery_inv (snd (add_class ids admin_code new_class clicked s)) \<and>
         gallery_inv (snd (remove_class admin_code class_to_remove clicked s)) \<and>
         gallery_inv (snd (download_csv admin_code download_class download_date clicked s)) \<and>
         (known_faces_pkl s = None \<longrightarrow>
            known_faces (load_known_faces s) = [] \<and> known_metadata (load_known_faces s) = []) \<and>
         gallery_inv (snd (attendance_tab face_encodings distance ids timestamp choice face_img
                        s)) \<and>
         gallery_inv (snd (dashboard admin_code selected date s)) \<and>
         gallery_inv (snd (admin_report admin_code selected date download_class download_date
                        clicked s))"
proof -
  have l: "known_faces_pkl s = None \<longrightarrow>
            known_faces (load_known_faces s) = [] \<and> known_metadata (load_known_faces s) = []"
    by (simp add: load_known_faces_def)
  have b: "gallery_inv (bootstrap ids s)"
    unfolding bootstrap_def by (rule frame_inv [OF assms bootstrap_gallery])
  have t2: "gallery_inv (snd (tab2 face_encodings distance ids timestamp selected_class
              face_img s))"
    by (rule frame_inv [OF assms tab2_gallery])
  have a: "gallery_inv (snd (add_class ids admin_code new_class clicked s))"
    by (rule frame_inv [OF assms add_class_gallery])
  have r: "gallery_inv (snd (remove_class admin_code class_to_remove clicked s))"
    by (rule frame_inv [OF assms remove_class_gallery])
  have d: "gallery_inv (snd (download_csv admin_code download_class download_date clicked s))"
    by (rule frame_inv [OF assms download_csv_gallery])
  have at: "gallery_inv (snd (attendance_tab face_encodings distance ids timestamp choice
              face_img s))"
    by (rule frame_inv [OF assms attendance_tab_gallery])
  have db: "gallery_inv (snd (dashboard admin_code selected date s))"
    by (rule frame_inv [OF assms dashboard_gallery])
  have ar: "gallery_inv (snd (admin_report admin_code selected date download_class
              download_date clicked s))"
    by (rule frame_inv [OF assms admin_report_gallery])
  show ?thesis
    using l b t2 a r d at db ar load_inv [OF assms]
      tab1_inv [OF assms, of face_encodings reg_name reg_id reg_email reg_phone reg_img reg_submit]
    by simp
qed

lemma fresh_inv: "gallery_inv fresh_state"
  by (simp add: gallery_inv_def fresh_state_def)

theorem C9_gallery_invariant_witness:
  "gallery_inv fresh_state \<and> gallery_inv (load_known_faces fresh_state) \<and>
   known_faces (load_known_faces fresh_state) = [] \<and>
   known_metadata (load_known_faces fresh_state) = [] \<and>
   gallery_inv (snd (tab1 one_face ''Dan'' ''S4'' ''dan@x.org'' ''0123456789'' (Some ()) True
     fresh_state))"
proof -
  have n: "known_faces_pkl fresh_state = None" by (simp add: fresh_state_def)
  show ?thesis
    using C9_gallery_invariant [OF fresh_inv, of demo_ids one_face "''Dan''" "''S4''"
        "''dan@x.org''" "''0123456789''" "Some ()" True] fresh_inv n
    by simp
qed

subsection \<open>The class-folder bootstrap\<close>

lemma map_of_dict_set: "map_of (dict_set d k v) k' = (if k' = k then Some v else map_of d k')"
  by (induction d k v rule: dict_set.induct) auto

lemma dict_in_dict_set: "dict_in k (dict_set d k' v) \<longleftrightarrow> k = k' \<or> dict_in k d"
  by (simp add: dict_in_def map_of_dict_set)

lemma dict_in_keys: "dict_in k d \<longleftrightarrow> k \<in> set (keys d)"
  by (simp add: dict_in_def keys_def map_of_eq_None_iff)

lemma keys_dict_set:
  "keys (dict_set d k v) = (if dict_in k d then keys d else keys d @ [k])"
  by (induction d k v rule: dict_set.induct) (auto simp: keys_def dict_in_def)

lemma distinct_keys_dict_set: "distinct (keys d) \<Longrightarrow> distinct (keys (dict_set d k v))"
  by (simp add: keys_dict_set dict_in_keys)

lemma create_default_folders_noop:
  "\<forall>c\<in>set defaults. dict_in c d \<Longrightarrow> create_default_folders ids defaults d cs = (d, cs)"
  by (induction defaults) simp_all

lemma create_default_folders_step:
  "\<not> dict_in cls d \<Longrightarrow>
   create_default_folders ids (cls # rest) d cs =
     create_default_folders ids rest
       (dict_set d cls (ids (length (filter is_drive_create cs)))) (cs @ [DriveCreateFolder cls])"
  by (simp add: drive_create_def)

lemma create_default_folders_result:
  "create_default_folders ids defaults d cs = (d', cs') \<Longrightarrow>
   (\<forall>k. dict_in k d \<longrightarrow> dict_in k d' \<and> map_of d' k = map_of d k) \<and>
   (\<forall>c\<in>set defaults. dict_in c d') \<and>
   (distinct (keys d) \<longrightarrow> distinct (keys d'))"
proof (induction defaults arbitrary: d cs)
  case Nil
  then show ?case by simp
next
  case (Cons cls rest)
  show ?case
  proof (cases "dict_in cls d")
    case True
    with Cons.prems have "create_default_folders ids rest d cs = (d', cs')" by simp
    from Cons.IH [OF this] True show ?thesis by simp
  next
    case False
    let ?d1 = "dict_set d cls (ids (length (filter is_drive_create cs)))"
    have "create_default_folders ids rest ?d1 (cs @ [DriveCreateFolder cls]) = (d', cs')"
      using Cons.prems unfolding create_default_folders_step [OF False] .
    from Cons.IH [OF this]
    have ih1: "\<forall>k. dict_in k ?d1 \<longrightarrow> dict_in k d' \<and> map_of d' k = map_of ?d1 k"
      and ih2: "\<forall>c\<in>set rest. dict_in c d'"
      and ih3: "distinct (keys ?d1) \<longrightarrow> distinct (keys d')"
      by simp_all
    have a: "dict_in k d' \<and> map_of d' k = map_of d k" if k: "dict_in k d" for k
    proof -
      have "k \<noteq> cls" using False k by auto
      moreover have "dict_in k ?d1" using k by (simp add: dict_in_dict_set)
      ultimately show ?thesis
        using ih1 by (simp add: map_of_dict_set)
    qed
    have "dict_in cls ?d1" by (simp add: dict_in_dict_set)
    then have b: "dict_in cls d'" using ih1 by simp
    have c: "distinct (keys d) \<longrightarrow> distinct (keys d')"
      using ih3 distinct_keys_dict_set [of d cls] by simp
    show ?thesis using a b c ih2 by simp
  qed
qed

lemma create_default_folders_calls:
  "create_default_folders ids defaults d cs = (d', cs') \<Longrightarrow>
   \<exists>new. cs' = cs @ map DriveCreateFolder new \<and> set new \<subseteq> set defaults \<and>
         (\<forall>c\<in>set new. \<not> dict_in c d)"
proof (induction defaults arbitrary: d cs)
  case Nil
  then show ?case by simp
next
  case (Cons cls rest)
  show ?case
  proof (cases "dict_in cls d")
    case True
    with Cons.prems have "create_default_folders ids rest d cs = (d', cs')" by simp
    from Cons.IH [OF this] obtain new where
      "cs' = cs @ map DriveCreateFolder new" "set new \<subseteq> set rest" "\<forall>c\<in>set new. \<not> dict_in c d"
      by blast
    then have "cs' = cs @ map DriveCreateFolder new \<and> set new \<subseteq> set (cls # rest) \<and>
         (\<forall>c\<in>set new. \<not> dict_in c d)" by auto
    then show ?thesis by (rule exI)
  next
    case False
    let ?d1 = "dict_set d cls (ids (length (filter is_drive_create cs)))"
    have "create_default_folders ids rest ?d1 (cs @ [DriveCreateFolder cls]) = (d', cs')"
      using Cons.prems unfolding create_default_folders_step [OF False] .
    from Cons.IH [OF this] obtain new where
      n: "cs' = (cs @ [DriveCreateFolder cls]) @ map DriveCreateFolder new"
         "set new \<subseteq> set rest" "\<forall>c\<in>set new. \<not> dict_in c ?d1"
      by blast
    have "cs' = cs @ map DriveCreateFolder (cls # new)" using n(1) by simp
    moreover have "set (cls # new) \<subseteq> set (cls # rest)" using n(2) by auto
    moreover have "\<forall>c\<in>set (cls # new). \<not> dict_in c d"
      using n(3) False by (simp add: dict_in_dict_set)
    ultimately have "cs' = cs @ map DriveCreateFolder (cls # new) \<and>
        set (cls # new) \<subseteq> set (cls # rest) \<and> (\<forall>c\<in>set (cls # new). \<not> dict_in c d)"
      by simp
    then show ?thesis by (rule exI)
  qed
qed

lemma bootstrap_with_fresh_session:
  assumes "class_folders s = None"
    and "create_default_folders ids defaults
           (case class_folders_pkl s of Some d \<Rightarrow> d | None \<Rightarrow> []) (calls s) = (d', cs')"
  shows "bootstrap_with defaults ids s =
           s\<lparr>class_folders := Some d', class_folders_pkl := Some d',
             calls := cs' @ [PickleDump CLASS_FOLDERS_FILE]\<rparr>"
  using assms by (simp add: bootstrap_with_def Let_def)

text \<open>
  C4. Starting a session with no class folders loaded, on a file whose dict has distinct
  keys (or no file), the bootstrap leaves a registry with distinct keys that contains
  every default name and persists it. A second bootstrap in a new session, starting from
  that persisted state, yields the same registry and the same file contents, and adds to
  the call log only the write of the file: no further folder is created. Within the same
  session the bootstrap block is skipped and the state is unchanged.
\<close>

theorem C4_bootstrap_idempotent:
  assumes "class_folders s = None"
    and "\<forall>d. class_folders_pkl s = Some d \<longrightarrow> distinct (keys d)"
  shows "\<exists>d. class_folders (bootstrap_with defaults ids s) = Some d \<and>
             class_folders_pkl (bootstrap_with defaults ids s) = Some d \<and>
             distinct (keys d) \<and> set defaults \<subseteq> set (keys d) \<and>
             class_folders (bootstrap_with defaults ids'
               ((bootstrap_with defaults ids s)\<lparr>class_folders := None\<rparr>)) = Some d \<and>
             class_folders_pkl (bootstrap_with defaults ids'
               ((bootstrap_with defaults ids s)\<lparr>class_folders := None\<rparr>)) = Some d \<and>
             calls (bootstrap_with defaults ids'
               ((bootstrap_with defaults ids s)\<lparr>class_folders := None\<rparr>))
               = calls (bootstrap_with defaults ids s) @ [PickleDump CLASS_FOLDERS_FILE] \<and>
             filter is_drive_create (calls (bootstrap_with defaults ids'
               ((bootstrap_with defaults ids s)\<lparr>class_folders := None\<rparr>)))
               = filter is_drive_create (calls (bootstrap_with defaults ids s)) \<and>
             bootstrap_with defaults ids' (bootstrap_with defaults ids s)
               = bootstrap_with defaults ids s"
proof -
  let ?d0 = "case class_folders_pkl s of Some d \<Rightarrow> d | None \<Rightarrow> []"
  obtain d cs where r: "create_default_folders ids defaults ?d0 (calls s) = (d, cs)"
    by (cases "create_default_folders ids defaults ?d0 (calls s)")
  let ?s1 = "s\<lparr>class_folders := Some d, class_folders_pkl := Some d,
               calls := cs @ [PickleDump CLASS_FOLDERS_FILE]\<rparr>"
  have s1: "bootstrap_with defaults ids s = ?s1"
    by (rule bootstrap_with_fresh_session [OF assms(1) r])
  have d0: "distinct (keys ?d0)"
    using assms(2) by (cases "class_folders_pkl s") (simp_all add: keys_def)
  from create_default_folders_result [OF r] d0
  have all: "\<forall>c\<in>set defaults. dict_in c d" and dist: "distinct (keys d)"
    by simp_all
  have sub: "set defaults \<subseteq> set (keys d)"
    using all by (auto simp: dict_in_keys)
  let ?s1' = "?s1\<lparr>class_folders := None\<rparr>"
  have n: "create_default_folders ids' defaults
             (case class_folders_pkl ?s1' of Some d \<Rightarrow> d | None \<Rightarrow> []) (calls ?s1')
           = (d, cs @ [PickleDump CLASS_FOLDERS_FILE])"
    using create_default_folders_noop [OF all] by simp
  have c: "class_folders ?s1' = None" by simp
  have s2: "bootstrap_with defaults ids' ?s1' =
              ?s1'\<lparr>class_folders := Some d, class_folders_pkl := Some d,
                 calls := (cs @ [PickleDump CLASS_FOLDERS_FILE])
                          @ [PickleDump CLASS_FOLDERS_FILE]\<rparr>"
    by (rule bootstrap_with_fresh_session [OF c n])
  have same: "bootstrap_with defaults ids' ?s1 = ?s1"
    by (simp add: bootstrap_with_def)
  show ?thesis
    unfolding s1 s2 using dist sub same by simp
qed

lemma boot_eval:
  "create_default_folders demo_ids DEFAULT_CLASS_LIST [] [] =
     (zip DEFAULT_CLASS_LIST (map demo_ids [0, 1, 2, 3, 4, 5]), map DriveCreateFolder DEFAULT_CLASS_LIST)"
  by (simp add: DEFAULT_CLASS_LIST_def drive_create_def dict_in_def eval_nat_numeral)


theorem C4_bootstrap_idempotent_witness:
  "class_folders fresh_state = None \<and>
   class_folders_pkl fresh_state = None \<and>
   calls (bootstrap demo_ids fresh_state)
     = map DriveCreateFolder DEFAULT_CLASS_LIST @ [PickleDump CLASS_FOLDERS_FILE] \<and>
   class_folders (bootstrap demo_ids ((bootstrap demo_ids fresh_state)\<lparr>class_folders := None\<rparr>))
     = class_folders (bootstrap demo_ids fresh_state) \<and>
   calls (bootstrap demo_ids ((bootstrap demo_ids fresh_state)\<lparr>class_folders := None\<rparr>))
     = map DriveCreateFolder DEFAULT_CLASS_LIST
       @ [PickleDump CLASS_FOLDERS_FILE, PickleDump CLASS_FOLDERS_FILE]"
proof -
  have a: "class_folders fresh_state = None" "class_folders_pkl fresh_state = None"
    by (simp_all add: fresh_state_def)
  have b: "\<forall>d. class_folders_pkl fresh_state = Some d \<longrightarrow> distinct (keys d)"
    using a by simp
  have c: "calls (bootstrap_with DEFAULT_CLASS_LIST demo_ids fresh_state)
     = map DriveCreateFolder DEFAULT_CLASS_LIST @ [PickleDump CLASS_FOLDERS_FILE]"
    using boot_eval by (simp add: bootstrap_with_def fresh_state_def)
  show ?thesis
    using C4_bootstrap_idempotent [OF a(1) b, of DEFAULT_CLASS_LIST demo_ids demo_ids] a c
    unfolding bootstrap_def by auto
qed

subsection \<open>The attendance ledger\<close>

lemma submit_success:
  assumes "map_of matched ''name'' = Some name"
    and "map_of matched ''student_id'' = Some student_id"
    and "class_folders s = Some folders" and "map_of folders cls = Some parent"
  shows "submit ids timestamp (Some cls) matched s =
     (let filename = name @ ''_'' @ student_id @ ''_'' @ cls @ ''_'' @
                     replace_char CHR '':'' CHR ''-'' timestamp @ ''.jpg'';
          file_url = ''https://drive.google.com/file/d/'' @
                     ids (length (filter is_drive_create (calls s))) @ ''/view'';
          new_row = [timestamp, name, student_id, dict_get matched ''email'' '''',
                     dict_get matched ''phone'' '''', cls, ''Present'', file_url]
      in (Shown (AttendanceSubmitted name student_id),
          case worksheets s cls of
            None \<Rightarrow>
              s\<lparr>worksheets := (worksheets s)(cls \<mapsto> [HEADER, new_row]),
                calls := calls s @ [DriveUpload filename parent, AddWorksheet cls,
                                    AppendRow cls HEADER, AppendRow cls new_row]\<rparr>
          | Some rows \<Rightarrow>
              s\<lparr>worksheets := (worksheets s)(cls \<mapsto> rows @ [new_row]),
                calls := calls s @ [DriveUpload filename parent, AppendRow cls new_row]\<rparr>))"
  using assms
  by (cases "worksheets s cls")
     (simp_all add: submit_def Let_def drive_create_def worksheet_def py_str_def)

lemma tab2_accepted:
  "face_encodings img = q # rest \<Longrightarrow> match_face distance q s0 = (Match matched d, s) \<Longrightarrow>
   tab2 face_encodings distance ids timestamp selected_class (Some img) s0
     = submit ids timestamp selected_class matched s"
  by (simp add: tab2_def)

lemma ann_fields:
  "map_of ann ''name'' = Some ''Ann''" "map_of ann ''student_id'' = Some ''S1''"
  "dict_get ann ''email'' '''' = ''ann@x.org''" "dict_get ann ''phone'' '''' = ''0123456789''"
  by (simp_all add: ann_def dict_get_def)

lemma submit_appends_row:
  assumes "map_of matched ''name'' = Some name"
    and "map_of matched ''student_id'' = Some student_id"
    and "class_folders s = Some folders" and "map_of folders cls = Some parent"
  shows "fst (submit ids timestamp (Some cls) matched s)
           = Shown (AttendanceSubmitted name student_id) \<and>
         worksheets (snd (submit ids timestamp (Some cls) matched s)) cls
           = Some ((case worksheets s cls of None \<Rightarrow> [HEADER] | Some rows \<Rightarrow> rows) @
               [[timestamp, name, student_id, dict_get matched ''email'' '''',
                 dict_get matched ''phone'' '''', cls, ''Present'',
                 ''https://drive.google.com/file/d/'' @
                   ids (length (filter is_drive_create (calls s))) @ ''/view'']]) \<and>
         (\<forall>t. t \<noteq> cls \<longrightarrow>
            worksheets (snd (submit ids timestamp (Some cls) matched s)) t = worksheets s t) \<and>
         length (filter (\<lambda>c. case c of AppendRow t r \<Rightarrow> r \<noteq> HEADER | _ \<Rightarrow> False)
                   (calls (snd (submit ids timestamp (Some cls) matched s))))
           = Suc (length (filter (\<lambda>c. case c of AppendRow t r \<Rightarrow> r \<noteq> HEADER | _ \<Rightarrow> False)
                   (calls s))) \<and>
         (face_encodings img = q # rest \<and> match_face distance q s0 = (Match matched d, s) \<longrightarrow>
            tab2 face_encodings distance ids timestamp (Some cls) (Some img) s0
              = submit ids timestamp (Some cls) matched s)"
proof -
  let ?row = "[timestamp, name, student_id, dict_get matched ''email'' '''',
                 dict_get matched ''phone'' '''', cls, ''Present'',
                 ''https://drive.google.com/file/d/'' @
                   ids (length (filter is_drive_create (calls s))) @ ''/view'']"
  have h: "?row \<noteq> HEADER"
    by (simp add: HEADER_def)
  have a: "fst (submit ids timestamp (Some cls) matched s)
           = Shown (AttendanceSubmitted name student_id)"
    unfolding submit_success [OF assms] by (simp add: Let_def)
  have b: "worksheets (snd (submit ids timestamp (Some cls) matched s)) cls
           = Some ((case worksheets s cls of None \<Rightarrow> [HEADER] | Some rows \<Rightarrow> rows) @ [?row])"
    unfolding submit_success [OF assms]
    by (cases "worksheets s cls") (simp_all add: Let_def)
  have c: "\<forall>t. t \<noteq> cls \<longrightarrow>
            worksheets (snd (submit ids timestamp (Some cls) matched s)) t = worksheets s t"
    unfolding submit_success [OF assms]
    by (cases "worksheets s cls") (simp_all add: Let_def)
  have d: "length (filter (\<lambda>c. case c of AppendRow t r \<Rightarrow> r \<noteq> HEADER | _ \<Rightarrow> False)
                   (calls (snd (submit ids timestamp (Some cls) matched s))))
           = Suc (length (filter (\<lambda>c. case c of AppendRow t r \<Rightarrow> r \<noteq> HEADER | _ \<Rightarrow> False)
                   (calls s)))"
    unfolding submit_success [OF assms] using h
    by (cases "worksheets s cls") (simp_all add: Let_def)
  have e: "face_encodings img = q # rest \<and> match_face distance q s0 = (Match matched d, s) \<longrightarrow>
            tab2 face_encodings distance ids timestamp (Some cls) (Some img) s0
              = submit ids timestamp (Some cls) matched s"
    by (simp add: tab2_accepted)
  show ?thesis
    using a b c d e by blast
qed

lemma submit_appends_row_example:
  "fst (submit demo_ids ''2025-03-01 09:00:00'' (Some ''Maths'') ann demo_state)
     = Shown (AttendanceSubmitted ''Ann'' ''S1'') \<and>
   worksheets demo_state ''Maths'' = None \<and>
   worksheets (snd (submit demo_ids ''2025-03-01 09:00:00'' (Some ''Maths'') ann demo_state))
     ''Maths''
     = Some [HEADER,
             [''2025-03-01 09:00:00'', ''Ann'', ''S1'', ''ann@x.org'', ''0123456789'', ''Maths'',
              ''Present'', ''https://drive.google.com/file/d/id/view'']] \<and>
   worksheets (snd (submit demo_ids ''2025-03-02 09:00:00'' (Some ''Maths'') ann one_row_state))
     ''Maths''
     = Some [HEADER,
             [''2025-03-01 09:00:00'', ''Ann'', ''S1'', ''ann@x.org'', ''0123456789'', ''Maths'',
              ''Present'', ''url''],
             [''2025-03-02 09:00:00'', ''Ann'', ''S1'', ''ann@x.org'', ''0123456789'', ''Maths'',
              ''Present'', ''https://drive.google.com/file/d/id/view'']]"
proof -
  have a: "map_of ann ''name'' = Some ''Ann''" "map_of ann ''student_id'' = Some ''S1''"
    "dict_get ann ''email'' '''' = ''ann@x.org''" "dict_get ann ''phone'' '''' = ''0123456789''"
    by (simp_all add: ann_def dict_get_def)
  have f: "class_folders demo_state = Some [(''Maths'', ''folder-1'')]"
    "class_folders one_row_state = Some [(''Maths'', ''folder-1'')]"
    "map_of [(''Maths'', ''folder-1'')] ''Maths'' = Some ''folder-1''"
    by (simp_all add: demo_state_def one_row_state_def)
  have w: "worksheets demo_state ''Maths'' = None"
    "worksheets one_row_state ''Maths'' =
       Some [HEADER, [''2025-03-01 09:00:00'', ''Ann'', ''S1'', ''ann@x.org'',
                      ''0123456789'', ''Maths'', ''Present'', ''url'']]"
    "calls demo_state = []" "calls one_row_state = []"
    by (simp_all add: demo_state_def one_row_state_def)
  have i: "demo_ids 0 = ''id''" by (simp add: demo_ids_def)
  note t1 = submit_appends_row [where ids = demo_ids and timestamp = "''2025-03-01 09:00:00''"
      and face_encodings = one_face and img = "()" and q = "6/5" and rest = "[]"
      and distance = abs_distance and ?s0.0 = demo_state and d = "1/5", OF a(1,2) f(1,3)]
  note t2 = submit_appends_row [where ids = demo_ids and timestamp = "''2025-03-02 09:00:00''"
      and face_encodings = one_face and img = "()" and q = "6/5" and rest = "[]"
      and distance = abs_distance and ?s0.0 = demo_state and d = "1/5", OF a(1,2) f(2,3)]
  have p1: "fst (submit demo_ids ''2025-03-01 09:00:00'' (Some ''Maths'') ann demo_state)
     = Shown (AttendanceSubmitted ''Ann'' ''S1'')"
    using t1 by blast
  have p2: "worksheets (snd (submit demo_ids ''2025-03-01 09:00:00'' (Some ''Maths'') ann
      demo_state)) ''Maths''
     = Some [HEADER,
             [''2025-03-01 09:00:00'', ''Ann'', ''S1'', ''ann@x.org'', ''0123456789'', ''Maths'',
              ''Present'', ''https://drive.google.com/file/d/id/view'']]"
    using t1 by (simp add: a w i)
  have p3: "worksheets (snd (submit demo_ids ''2025-03-02 09:00:00'' (Some ''Maths'') ann
      one_row_state)) ''Maths''
     = Some [HEADER,
             [''2025-03-01 09:00:00'', ''Ann'', ''S1'', ''ann@x.org'', ''0123456789'', ''Maths'',
              ''Present'', ''url''],
             [''2025-03-02 09:00:00'', ''Ann'', ''S1'', ''ann@x.org'', ''0123456789'', ''Maths'',
              ''Present'', ''https://drive.google.com/file/d/id/view'']]"
    using t2 by (simp add: a w i)
  show ?thesis using p1 p2 p3 w(1) by simp
qed

text \<open>
  With at least one class in the registry the select box returns one of its keys, and an
  accepted check-in for a matched entry holding a name and a student id appends its row.
\<close>

lemma selectbox_key:
  assumes "folders \<noteq> []"
  shows "\<exists>cls parent. selectbox (keys folders) choice = Some cls \<and>
                      map_of folders cls = Some parent"
proof -
  obtain k v rest where f: "folders = (k, v) # rest"
    using assms by (cases folders) auto
  show ?thesis
  proof (cases "choice < length folders")
    case True
    then have "keys folders ! choice \<in> set (keys folders)" by (simp add: keys_def)
    then have "map_of folders (keys folders ! choice) \<noteq> None"
      by (simp add: keys_def map_of_eq_None_iff)
    then show ?thesis using True f by (auto simp: selectbox_def keys_def)
  next
    case False
    then show ?thesis using f by (simp add: selectbox_def keys_def)
  qed
qed

lemma check_in_appends_row:
  assumes "class_folders s0 = Some folders" "folders \<noteq> []"
    and "face_encodings img = q # rest"
    and "match_face distance q s0 = (Match matched d, s)"
    and "map_of matched ''name'' = Some name"
    and "map_of matched ''student_id'' = Some student_id"
  shows "\<exists>cls. selectbox (keys folders) choice = Some cls \<and>
           fst (attendance_tab face_encodings distance ids timestamp choice (Some img) s0)
             = Shown (AttendanceSubmitted name student_id) \<and>
           worksheets (snd (attendance_tab face_encodings distance ids timestamp choice
                              (Some img) s0)) cls
             = Some ((case worksheets s0 cls of None \<Rightarrow> [HEADER] | Some rows \<Rightarrow> rows) @
                 [[timestamp, name, student_id, dict_get matched ''email'' '''',
                   dict_get matched ''phone'' '''', cls, ''Present'',
                   ''https://drive.google.com/file/d/'' @
                     ids (length (filter is_drive_create (calls s0))) @ ''/view'']])"
proof -
  from selectbox_key [OF assms(2), of choice] obtain cls parent where
    c: "selectbox (keys folders) choice = Some cls" "map_of folders cls = Some parent"
    by blast
  have s: "s = s0\<lparr>calls := calls s0 @ [FaceDistanceCall]\<rparr>"
    using assms(4) by (auto simp: match_face_def Let_def split: if_splits sum.splits prod.splits)
  have f: "class_folders s = Some folders" using s assms(1) by simp
  have t: "attendance_tab face_encodings distance ids timestamp choice (Some img) s0
             = submit ids timestamp (Some cls) matched s"
    using assms(1) c(1)
      tab2_accepted [where face_encodings = face_encodings and img = img, OF assms(3,4)]
    by (simp add: attendance_tab_def)
  have w: "worksheets s cls = worksheets s0 cls"
    "filter is_drive_create (calls s) = filter is_drive_create (calls s0)"
    using s by simp_all
  show ?thesis
    unfolding t submit_success [OF assms(5,6) f c(2)] using c(1) w
    by (cases "worksheets s0 cls") (simp_all add: Let_def)
qed

lemma empty_registry_eval:
  "empty_registry_state =
     demo_state\<lparr>class_folders := Some [], class_folders_pkl := Some [],
       calls := calls demo_state @ [PickleDump CLASS_FOLDERS_FILE]\<rparr>"
proof -
  have "class_folders demo_state = Some [(''Maths'', ''folder-1'')]"
    by (simp add: demo_state_def)
  then show ?thesis
    by (simp add: empty_registry_state_def remove_class_def dict_in_def dict_del_def Let_def)
qed

lemma match_face_empty_registry:
  "match_face abs_distance (6/5) empty_registry_state =
     (Match ann (1/5),
      empty_registry_state\<lparr>calls := calls empty_registry_state @ [FaceDistanceCall]\<rparr>)"
proof -
  have d: "face_distance abs_distance (known_faces empty_registry_state) (6/5)
             = [1/5, 9/5, 1/5]"
    by (simp add: empty_registry_eval demo_state_def face_distance_def abs_distance_def)
  have b: "best_match [1/5, 9/5, 1/5] = Inr (1/5, 0)"
    by (simp add: best_match_def py_min_def)
  have k: "known_faces empty_registry_state \<noteq> []"
    "known_metadata empty_registry_state ! 0 = ann"
    "length (known_metadata empty_registry_state) = 3"
    by (simp_all add: empty_registry_eval demo_state_def)
  show ?thesis by (simp add: match_face_def d b k Let_def)
qed

text \<open>
  C5. An accepted check-in does not always append a row. After the admin has removed the
  last class the select box of the attendance tab has no option and returns \<open>None\<close>;
  a face that matches a registered identity is then accepted by the matcher, and the
  lookup \<open>class_folders[selected_class]\<close> raises \<open>KeyError\<close> before anything is
  uploaded or appended: the ledger is unchanged and the only call made is the distance
  computation.
\<close>

theorem C5_empty_registry_check_in:
  "class_folders empty_registry_state = Some [] \<and>
   selectbox (keys ([] :: string dict)) 0 = None \<and>
   fst (match_face abs_distance (6/5) empty_registry_state) = Match ann (1/5) \<and>
   fst (attendance_tab one_face abs_distance demo_ids ''2025-03-01 09:00:00'' 0 (Some ())
          empty_registry_state) = Raised KeyError \<and>
   worksheets (snd (attendance_tab one_face abs_distance demo_ids ''2025-03-01 09:00:00'' 0
          (Some ()) empty_registry_state)) ''Maths'' = None \<and>
   calls (snd (attendance_tab one_face abs_distance demo_ids ''2025-03-01 09:00:00'' 0
          (Some ()) empty_registry_state))
     = calls empty_registry_state @ [FaceDistanceCall]"
proof -
  have c: "class_folders empty_registry_state = Some []"
    by (simp add: empty_registry_eval)
  have s: "selectbox (keys ([] :: string dict)) 0 = None"
    by (simp add: selectbox_def keys_def)
  have w: "worksheets empty_registry_state ''Maths'' = None"
    by (simp add: empty_registry_eval demo_state_def)
  have t: "attendance_tab one_face abs_distance demo_ids ''2025-03-01 09:00:00'' 0 (Some ())
          empty_registry_state =
        (Raised KeyError,
         empty_registry_state\<lparr>calls := calls empty_registry_state @ [FaceDistanceCall]\<rparr>)"
    by (simp add: attendance_tab_def c s tab2_def one_face_def match_face_empty_registry
        submit_def ann_fields Let_def)
  show ?thesis
    unfolding t using c s w by (simp add: match_face_empty_registry)
qed

subsection \<open>Number of faces in the image\<close>

lemma isdigit_demo_phone: "isdigit ''0123456789''"
  by (simp add: isdigit_def isdigit_char_def)

text \<open>
  C7, as stated, fails: an image in which two faces are detected is not rejected. The
  registration succeeds with the first embedding and the gallery changes.
\<close>

theorem C7_multiple_faces_counterexample:
  "length (two_faces ()) = 2 \<and>
   fst (tab1 two_faces ''Dan'' ''S4'' ''dan@x.org'' ''0123456789'' (Some ()) True demo_state)
     = Shown (Registered ''Dan'') \<and>
   known_faces (snd (tab1 two_faces ''Dan'' ''S4'' ''dan@x.org'' ''0123456789'' (Some ()) True
     demo_state)) = known_faces demo_state @ [6/5] \<and>
   snd (tab1 two_faces ''Dan'' ''S4'' ''dan@x.org'' ''0123456789'' (Some ()) True demo_state)
     \<noteq> demo_state"
proof -
  have k: "known_faces (snd (tab1 two_faces ''Dan'' ''S4'' ''dan@x.org'' ''0123456789''
             (Some ()) True demo_state)) = known_faces demo_state @ [6/5]"
    by (simp add: tab1_def two_faces_def isdigit_demo_phone Let_def)
  have "known_faces (snd (tab1 two_faces ''Dan'' ''S4'' ''dan@x.org'' ''0123456789''
             (Some ()) True demo_state)) \<noteq> known_faces demo_state"
    unfolding k by simp
  then have n: "snd (tab1 two_faces ''Dan'' ''S4'' ''dan@x.org'' ''0123456789'' (Some ()) True
      demo_state) \<noteq> demo_state"
    by auto
  have f: "fst (tab1 two_faces ''Dan'' ''S4'' ''dan@x.org'' ''0123456789'' (Some ()) True
      demo_state) = Shown (Registered ''Dan'')"
    by (simp add: tab1_def two_faces_def isdigit_demo_phone Let_def)
  show ?thesis using k n f by (simp add: two_faces_def)
qed

lemma submit_outcome:
  "fst (submit ids timestamp selected_class matched s) \<noteq> Shown NoFaceDetected"
  by (simp add: submit_def Let_def drive_create_def split: option.splits)

lemma match_face_demo:
  "match_face abs_distance (6/5) demo_state =
     (Match ann (1/5), demo_state\<lparr>calls := calls demo_state @ [FaceDistanceCall]\<rparr>)"
proof -
  have d: "face_distance abs_distance (known_faces demo_state) (6/5) = [1/5, 9/5, 1/5]"
    by (simp add: demo_state_def face_distance_def abs_distance_def)
  have b: "best_match [1/5, 9/5, 1/5] = Inr (1/5, 0)"
    by (simp add: best_match_def py_min_def)
  have k: "known_faces demo_state \<noteq> []" "known_metadata demo_state ! 0 = ann"
    "length (known_metadata demo_state) = 3"
    by (simp_all add: demo_state_def)
  show ?thesis by (simp add: match_face_def d b k Let_def)
qed

text \<open>
  C7, amended. When no face is detected both flows report "No face detected" and leave
  the state unchanged. When at least one face is detected the image is not rejected and
  the further faces are ignored: a valid registration succeeds and appends the first
  embedding, and the check-in is decided by matching the first embedding against the
  gallery; neither flow then reports "No face detected".
\<close>

theorem C7_first_embedding_consumed:
  "(face_encodings img = [] \<longrightarrow>
      tab2 face_encodings distance ids timestamp selected_class (Some img) s
        = (Shown NoFaceDetected, s) \<and>
      snd (tab1 face_encodings reg_name reg_id reg_email reg_phone (Some img) reg_submit s) = s \<and>
      (reg_submit \<and> reg_name \<noteq> [] \<and> reg_id \<noteq> [] \<and> reg_email \<noteq> [] \<and> reg_phone \<noteq> [] \<and>
       CHR ''@'' \<in> set reg_email \<and> CHR ''.'' \<in> set reg_email \<and>
       isdigit reg_phone \<and> 10 \<le> length reg_phone \<and> length reg_phone \<le> 15 \<longrightarrow>
       fst (tab1 face_encodings reg_name reg_id reg_email reg_phone (Some img) reg_submit s)
         = Shown NoFaceDetected)) \<and>
   (face_encodings img = e0 # rest \<longrightarrow>
      (reg_submit \<and> reg_name \<noteq> [] \<and> reg_id \<noteq> [] \<and> reg_email \<noteq> [] \<and> reg_phone \<noteq> [] \<and>
       CHR ''@'' \<in> set reg_email \<and> CHR ''.'' \<in> set reg_email \<and>
       isdigit reg_phone \<and> 10 \<le> length reg_phone \<and> length reg_phone \<le> 15 \<longrightarrow>
       tab1 face_encodings reg_name reg_id reg_email reg_phone (Some img) reg_submit s =
         (Shown (Registered reg_name),
          s\<lparr>known_faces := known_faces s @ [e0],
            known_metadata := known_metadata s @
              [[(''name'', reg_name), (''student_id'', reg_id),
                (''email'', reg_email), (''phone'', reg_phone)]],
            known_faces_pkl := Some (known_faces s @ [e0], known_metadata s @
              [[(''name'', reg_name), (''student_id'', reg_id),
                (''email'', reg_email), (''phone'', reg_phone)]]),
            calls := calls s @ [PickleDump ''known_faces.pkl'']\<rparr>)) \<and>
      fst (tab1 face_encodings reg_name reg_id reg_email reg_phone (Some img) reg_submit s)
        \<noteq> Shown NoFaceDetected \<and>
      tab2 face_encodings distance ids timestamp selected_class (Some img) s =
        (case match_face distance e0 s of
           (NoMatchEmptyGallery, s1) \<Rightarrow> (Shown NoRegisteredFaces, s1)
         | (MatchError e, s1) \<Rightarrow> (Raised e, s1)
         | (Match matched d, s1) \<Rightarrow> submit ids timestamp selected_class matched s1
         | (NoMatchBelowThreshold, s1) \<Rightarrow> (Shown FaceNotRecognized, s1)) \<and>
      fst (tab2 face_encodings distance ids timestamp selected_class (Some img) s)
        \<noteq> Shown NoFaceDetected)"
proof -
  have z: "face_encodings img = [] \<longrightarrow>
      tab2 face_encodings distance ids timestamp selected_class (Some img) s
        = (Shown NoFaceDetected, s) \<and>
      snd (tab1 face_encodings reg_name reg_id reg_email reg_phone (Some img) reg_submit s) = s \<and>
      (reg_submit \<and> reg_name \<noteq> [] \<and> reg_id \<noteq> [] \<and> reg_email \<noteq> [] \<and> reg_phone \<noteq> [] \<and>
       CHR ''@'' \<in> set reg_email \<and> CHR ''.'' \<in> set reg_email \<and>
       isdigit reg_phone \<and> 10 \<le> length reg_phone \<and> length reg_phone \<le> 15 \<longrightarrow>
       fst (tab1 face_encodings reg_name reg_id reg_email reg_phone (Some img) reg_submit s)
         = Shown NoFaceDetected)"
    by (simp add: tab1_def tab2_def)
  have r: "face_encodings img = e0 # rest \<longrightarrow>
      (reg_submit \<and> reg_name \<noteq> [] \<and> reg_id \<noteq> [] \<and> reg_email \<noteq> [] \<and> reg_phone \<noteq> [] \<and>
       CHR ''@'' \<in> set reg_email \<and> CHR ''.'' \<in> set reg_email \<and>
       isdigit reg_phone \<and> 10 \<le> length reg_phone \<and> length reg_phone \<le> 15 \<longrightarrow>
       tab1 face_encodings reg_name reg_id reg_email reg_phone (Some img) reg_submit s =
         (Shown (Registered reg_name),
          s\<lparr>known_faces := known_faces s @ [e0],
            known_metadata := known_metadata s @
              [[(''name'', reg_name), (''student_id'', reg_id),
                (''email'', reg_email), (''phone'', reg_phone)]],
            known_faces_pkl := Some (known_faces s @ [e0], known_metadata s @
              [[(''name'', reg_name), (''student_id'', reg_id),
                (''email'', reg_email), (''phone'', reg_phone)]]),
            calls := calls s @ [PickleDump ''known_faces.pkl'']\<rparr>))"
    by (simp add: tab1_def Let_def)
  have n1: "face_encodings img = e0 # rest \<longrightarrow>
      fst (tab1 face_encodings reg_name reg_id reg_email reg_phone (Some img) reg_submit s)
        \<noteq> Shown NoFaceDetected"
    by (simp add: tab1_def Let_def)
  have t: "face_encodings img = e0 # rest \<longrightarrow>
      tab2 face_encodings distance ids timestamp selected_class (Some img) s =
        (case match_face distance e0 s of
           (NoMatchEmptyGallery, s1) \<Rightarrow> (Shown NoRegisteredFaces, s1)
         | (MatchError e, s1) \<Rightarrow> (Raised e, s1)
         | (Match matched d, s1) \<Rightarrow> submit ids timestamp selected_class matched s1
         | (NoMatchBelowThreshold, s1) \<Rightarrow> (Shown FaceNotRecognized, s1))"
    by (simp add: tab2_def)
  have n2: "face_encodings img = e0 # rest \<longrightarrow>
      fst (tab2 face_encodings distance ids timestamp selected_class (Some img) s)
        \<noteq> Shown NoFaceDetected"
  proof
    assume e: "face_encodings img = e0 # rest"
    obtain res s1 where m: "match_face distance e0 s = (res, s1)"
      by (cases "match_face distance e0 s")
    show "fst (tab2 face_encodings distance ids timestamp selected_class (Some img) s)
        \<noteq> Shown NoFaceDetected"
      using e m submit_outcome [of ids timestamp selected_class _ s1]
      by (cases res) (simp_all add: tab2_def)
  qed
  show ?thesis using z r n1 t n2 by blast
qed

theorem C7_first_embedding_consumed_witness:
  "two_faces () = 6/5 # [2] \<and> no_face () = [] \<and>
   fst (tab1 two_faces ''Dan'' ''S4'' ''dan@x.org'' ''0123456789'' (Some ()) True demo_state)
     = Shown (Registered ''Dan'') \<and>
   known_faces (snd (tab1 two_faces ''Dan'' ''S4'' ''dan@x.org'' ''0123456789'' (Some ()) True
     demo_state)) = [1, 3, 1, 6/5] \<and>
   fst (tab2 two_faces abs_distance demo_ids ''2025-03-01 09:00:00'' (Some ''Maths'') (Some ())
     demo_state) = Shown (AttendanceSubmitted ''Ann'' ''S1'') \<and>
   tab2 no_face abs_distance demo_ids ''2025-03-01 09:00:00'' (Some ''Maths'') (Some ())
     demo_state = (Shown NoFaceDetected, demo_state) \<and>
   tab1 no_face ''Dan'' ''S4'' ''dan@x.org'' ''0123456789'' (Some ()) True demo_state
     = (Shown NoFaceDetected, demo_state)"
proof -
  have a: "two_faces () = 6/5 # [2]" "no_face () = []"
    by (simp_all add: two_faces_def no_face_def)
  note two = C7_first_embedding_consumed [where face_encodings = two_faces and img = "()"
      and distance = abs_distance and ids = demo_ids and timestamp = "''2025-03-01 09:00:00''"
      and selected_class = "Some ''Maths''" and s = demo_state and reg_name = "''Dan''"
      and reg_id = "''S4''" and reg_email = "''dan@x.org''" and reg_phone = "''0123456789''"
      and reg_submit = True and ?e0.0 = "6/5" and rest = "[2]"]
  note none = C7_first_embedding_consumed [where face_encodings = no_face and img = "()"
      and distance = abs_distance and ids = demo_ids and timestamp = "''2025-03-01 09:00:00''"
      and selected_class = "Some ''Maths''" and s = demo_state and reg_name = "''Dan''"
      and reg_id = "''S4''" and reg_email = "''dan@x.org''" and reg_phone = "''0123456789''"
      and reg_submit = True and ?e0.0 = "6/5" and rest = "[2]"]
  have k: "known_faces demo_state = [1, 3, 1]" by (simp add: demo_state_def)
  have v: "True \<and> ''Dan'' \<noteq> [] \<and> ''S4'' \<noteq> [] \<and> ''dan@x.org'' \<noteq> [] \<and> ''0123456789'' \<noteq> [] \<and>
       CHR ''@'' \<in> set ''dan@x.org'' \<and> CHR ''.'' \<in> set ''dan@x.org'' \<and>
       isdigit ''0123456789'' \<and> 10 \<le> length ''0123456789'' \<and> length ''0123456789'' \<le> 15"
    using isdigit_demo_phone by simp
  have r1: "tab1 two_faces ''Dan'' ''S4'' ''dan@x.org'' ''0123456789'' (Some ()) True demo_state =
         (Shown (Registered ''Dan''),
          demo_state\<lparr>known_faces := known_faces demo_state @ [6/5],
            known_metadata := known_metadata demo_state @
              [[(''name'', ''Dan''), (''student_id'', ''S4''),
                (''email'', ''dan@x.org''), (''phone'', ''0123456789'')]],
            known_faces_pkl := Some (known_faces demo_state @ [6/5], known_metadata demo_state @
              [[(''name'', ''Dan''), (''student_id'', ''S4''),
                (''email'', ''dan@x.org''), (''phone'', ''0123456789'')]]),
            calls := calls demo_state @ [PickleDump ''known_faces.pkl'']\<rparr>)"
    using two [THEN conjunct2, rule_format, OF a(1), THEN conjunct1, rule_format, OF v] .
  have r2: "tab2 two_faces abs_distance demo_ids ''2025-03-01 09:00:00'' (Some ''Maths'') (Some ())
      demo_state =
        (case match_face abs_distance (6/5) demo_state of
           (NoMatchEmptyGallery, s1) \<Rightarrow> (Shown NoRegisteredFaces, s1)
         | (MatchError e, s1) \<Rightarrow> (Raised e, s1)
         | (Match matched d, s1) \<Rightarrow>
             submit demo_ids ''2025-03-01 09:00:00'' (Some ''Maths'') matched s1
         | (NoMatchBelowThreshold, s1) \<Rightarrow> (Shown FaceNotRecognized, s1))"
    using two [THEN conjunct2, rule_format, OF a(1)] by blast
  have f: "class_folders (demo_state\<lparr>calls := calls demo_state @ [FaceDistanceCall]\<rparr>)
             = Some [(''Maths'', ''folder-1'')]"
    "map_of [(''Maths'', ''folder-1'')] ''Maths'' = Some ''folder-1''"
    by (simp_all add: demo_state_def)
  have p2: "fst (tab2 two_faces abs_distance demo_ids ''2025-03-01 09:00:00'' (Some ''Maths'')
      (Some ()) demo_state) = Shown (AttendanceSubmitted ''Ann'' ''S1'')"
    unfolding r2 match_face_demo
    by (simp add: submit_success [OF ann_fields(1,2) f] Let_def)
  have p3: "tab2 no_face abs_distance demo_ids ''2025-03-01 09:00:00'' (Some ''Maths'') (Some ())
     demo_state = (Shown NoFaceDetected, demo_state)"
    using none [THEN conjunct1, rule_format, OF a(2)] by blast
  have p4: "tab1 no_face ''Dan'' ''S4'' ''dan@x.org'' ''0123456789'' (Some ()) True demo_state
     = (Shown NoFaceDetected, demo_state)"
    using none [THEN conjunct1, rule_format, OF a(2)] v by (simp add: prod_eq_iff)
  show ?thesis
    using a p2 p3 p4 unfolding r1 by (simp add: k)
qed

subsection \<open>The CSV export\<close>














end
